theory Spec2Isabelle
  imports Main "HOL-Library.Sublist"
begin

section \<open>JavaScript strings\<close>

text \<open>
  A JavaScript string is a sequence of UTF-16 code units. Code units are modelled as
  natural numbers, so that the handlers' non-ASCII literals (the alert text, the README)
  and the Unicode members of the \<^verbatim>\<open>\s\<close> class are what they are in the program.
  \<open>str\<close> embeds an ASCII literal.
\<close>

type_synonym jsstring = "nat list"

definition str :: "string \<Rightarrow> jsstring" where
  "str = map of_char"

text \<open>Removing a literal prefix; \<open>None\<close> when the text does not start with it.\<close>

fun strip_prefix :: "jsstring \<Rightarrow> jsstring \<Rightarrow> jsstring option" where
  "strip_prefix [] s = Some s"
| "strip_prefix (p # ps) [] = None"
| "strip_prefix (p # ps) (x # xs) = (if p = x then strip_prefix ps xs else None)"

text \<open>
  The first occurrence of a search string (\<^verbatim>\<open>indexOf\<close>), returned as the text before
  it and the text after it.
\<close>

fun split_first :: "jsstring \<Rightarrow> jsstring \<Rightarrow> (jsstring \<times> jsstring) option" where
  "split_first pat [] = (if pat = [] then Some ([], []) else None)"
| "split_first pat (x # xs) =
     (case strip_prefix pat (x # xs) of
        Some rest \<Rightarrow> Some ([], rest)
      | None \<Rightarrow> (case split_first pat xs of
                   None \<Rightarrow> None
                 | Some (pre, post) \<Rightarrow> Some (x # pre, post)))"

text \<open>\<^verbatim>\<open>String.prototype.includes\<close>.\<close>

definition js_includes :: "jsstring \<Rightarrow> jsstring \<Rightarrow> bool" where
  "js_includes s pat = (split_first pat s \<noteq> None)"

subsection \<open>Replacement templates\<close>

text \<open>
  \<^verbatim>\<open>String.prototype.replace\<close> with a string as its second argument expands that
  string as a template (the GetSubstitution operation of ECMAScript):
  \<^verbatim>\<open>$$\<close> is a dollar sign, \<^verbatim>\<open>$&\<close> the matched text, \<^verbatim>\<open>$`\<close> the text before the match,
  \<^verbatim>\<open>$'\<close> the text after it, \<^verbatim>\<open>$n\<close> and \<^verbatim>\<open>$nn\<close> the n-th capture when there is one;
  every other character, and a dollar sign followed by anything else, stands for itself.
\<close>

definition is_digit :: "nat \<Rightarrow> bool" where
  "is_digit c = (48 \<le> c \<and> c \<le> 57)"

definition digit_val :: "nat \<Rightarrow> nat" where
  "digit_val c = c - 48"

fun get_substitution ::
  "jsstring \<Rightarrow> jsstring \<Rightarrow> jsstring \<Rightarrow> jsstring list \<Rightarrow> jsstring \<Rightarrow> jsstring" where
  "get_substitution matched pre post caps [] = []"
| "get_substitution matched pre post caps [c] = [c]"
| "get_substitution matched pre post caps (c # d # t) =
     (if c \<noteq> 36 then c # get_substitution matched pre post caps (d # t)
      else if d = 36 then 36 # get_substitution matched pre post caps t
      else if d = 38 then matched @ get_substitution matched pre post caps t
      else if d = 96 then pre @ get_substitution matched pre post caps t
      else if d = 39 then post @ get_substitution matched pre post caps t
      else if is_digit d then
        (case t of
           e # t' \<Rightarrow>
             if is_digit e \<and> 10 * digit_val d + digit_val e \<le> length caps then
               (if 1 \<le> 10 * digit_val d + digit_val e
                then caps ! (10 * digit_val d + digit_val e - 1)
                       @ get_substitution matched pre post caps t'
                else 36 # d # e # get_substitution matched pre post caps t')
             else if 1 \<le> digit_val d \<and> digit_val d \<le> length caps
               then caps ! (digit_val d - 1) @ get_substitution matched pre post caps t
               else 36 # d # get_substitution matched pre post caps t
         | [] \<Rightarrow>
             if 1 \<le> digit_val d \<and> digit_val d \<le> length caps
               then caps ! (digit_val d - 1)
               else [36, d])
      else 36 # get_substitution matched pre post caps (d # t))"

text \<open>
  \<^verbatim>\<open>s.replace(pat, template)\<close> with a string pattern: only the first occurrence is
  replaced, there are no captures, and a text without the pattern is returned as it is.
\<close>

definition string_replace :: "jsstring \<Rightarrow> jsstring \<Rightarrow> jsstring \<Rightarrow> jsstring" where
  "string_replace s pat template =
     (case split_first pat s of
        None \<Rightarrow> s
      | Some (pre, post) \<Rightarrow>
          pre @ get_substitution pat pre post [] template @ post)"

section \<open>Regular expressions\<close>

text \<open>
  The patterns of the bundler use literals, character classes, greedy \<^verbatim>\<open>+\<close> and
  \<^verbatim>\<open>?\<close>, the lazy \<^verbatim>\<open>*?\<close>, one capturing group and alternation. None has the
  \<^verbatim>\<open>u\<close> or \<^verbatim>\<open>i\<close> flag, so matching is by code unit and case sensitive.
\<close>

datatype cls =
    Space                \<comment> \<open>\<^verbatim>\<open>\s\<close>\<close>
  | NonSpace             \<comment> \<open>\<^verbatim>\<open>\S\<close>\<close>
  | Chars "nat list"     \<comment> \<open>the listed characters\<close>
  | Or cls cls           \<comment> \<open>two members of one bracket\<close>
  | Neg cls              \<comment> \<open>\<^verbatim>\<open>[^...]\<close>\<close>

text \<open>
  \<^verbatim>\<open>\s\<close> is the white space and line terminators of ECMAScript: tab, line feed,
  vertical tab, form feed, carriage return, space, no-break space, U+1680, U+2000 to
  U+200A, U+2028, U+2029, U+202F, U+205F, U+3000 and U+FEFF.
\<close>

definition is_space :: "nat \<Rightarrow> bool" where
  "is_space c =
     ((9 \<le> c \<and> c \<le> 13) \<or> c = 32 \<or> c = 160 \<or> c = 5760 \<or> (8192 \<le> c \<and> c \<le> 8202)
      \<or> c = 8232 \<or> c = 8233 \<or> c = 8239 \<or> c = 8287 \<or> c = 12288 \<or> c = 65279)"

fun in_cls :: "cls \<Rightarrow> nat \<Rightarrow> bool" where
  "in_cls Space c = is_space c"
| "in_cls NonSpace c = (\<not> is_space c)"
| "in_cls (Chars cs) c = (c \<in> set cs)"
| "in_cls (Or a b) c = (in_cls a c \<or> in_cls b c)"
| "in_cls (Neg a) c = (\<not> in_cls a c)"

datatype regex =
    Lit jsstring         \<comment> \<open>literal characters\<close>
  | Cls cls              \<comment> \<open>one character of a class\<close>
  | Plus cls             \<comment> \<open>\<^verbatim>\<open>c+\<close>, greedy\<close>
  | StarLazy cls         \<comment> \<open>\<^verbatim>\<open>c*?\<close>, lazy\<close>
  | Opt nat              \<comment> \<open>\<^verbatim>\<open>x?\<close>, greedy, one literal character\<close>
  | Group regex          \<comment> \<open>a capturing group\<close>
  | Alt regex regex      \<comment> \<open>\<^verbatim>\<open>a|b\<close>\<close>
  | Seq regex regex      \<comment> \<open>concatenation\<close>

fun seqs :: "regex list \<Rightarrow> regex" where
  "seqs [] = Lit []"
| "seqs [r] = r"
| "seqs (r # rs) = Seq r (seqs rs)"

fun alts :: "regex list \<Rightarrow> regex" where
  "alts [] = Lit []"
| "alts [r] = r"
| "alts (r # rs) = Alt r (alts rs)"

text \<open>
  The matcher is the backtracking matcher of ECMAScript, in its continuation-passing
  form: a pattern is run on a state (the text left and the captures made so far) with a
  continuation that matches the rest of the pattern, and the result is the final state
  of the first way of matching that the continuation accepts. A greedy quantifier tries
  the longest repetition first, a lazy one the shortest, an alternation its left branch
  first.
\<close>

type_synonym mstate = "jsstring \<times> jsstring list"

fun plus_greedy :: "cls \<Rightarrow> jsstring \<Rightarrow> (jsstring \<Rightarrow> mstate option) \<Rightarrow> mstate option" where
  "plus_greedy c [] k = None"
| "plus_greedy c (x # xs) k =
     (if in_cls c x
      then (case plus_greedy c xs k of Some r \<Rightarrow> Some r | None \<Rightarrow> k xs)
      else None)"

fun star_lazy :: "cls \<Rightarrow> jsstring \<Rightarrow> (jsstring \<Rightarrow> mstate option) \<Rightarrow> mstate option" where
  "star_lazy c [] k = k []"
| "star_lazy c (x # xs) k =
     (case k (x # xs) of
        Some r \<Rightarrow> Some r
      | None \<Rightarrow> if in_cls c x then star_lazy c xs k else None)"

fun matcher :: "regex \<Rightarrow> mstate \<Rightarrow> (mstate \<Rightarrow> mstate option) \<Rightarrow> mstate option" where
  "matcher (Lit l) (s, caps) k =
     (case strip_prefix l s of None \<Rightarrow> None | Some rest \<Rightarrow> k (rest, caps))"
| "matcher (Cls c) (s, caps) k =
     (case s of [] \<Rightarrow> None | x # xs \<Rightarrow> if in_cls c x then k (xs, caps) else None)"
| "matcher (Plus c) (s, caps) k = plus_greedy c s (\<lambda>rest. k (rest, caps))"
| "matcher (StarLazy c) (s, caps) k = star_lazy c s (\<lambda>rest. k (rest, caps))"
| "matcher (Opt x) (s, caps) k =
     (case s of
        [] \<Rightarrow> k ([], caps)
      | y # ys \<Rightarrow>
          if x = y
          then (case k (ys, caps) of Some r \<Rightarrow> Some r | None \<Rightarrow> k (y # ys, caps))
          else k (y # ys, caps))"
| "matcher (Group r) (s, caps) k =
     matcher r (s, caps)
       (\<lambda>(rest, caps'). k (rest, caps' @ [take (length s - length rest) s]))"
| "matcher (Alt a b) st k =
     (case matcher a st k of Some r \<Rightarrow> Some r | None \<Rightarrow> matcher b st k)"
| "matcher (Seq a b) st k = matcher a st (\<lambda>st'. matcher b st' k)"

text \<open>The match at the start of a text: the text after it and the captures.\<close>

definition match_at :: "regex \<Rightarrow> jsstring \<Rightarrow> mstate option" where
  "match_at r s = matcher r (s, []) Some"

text \<open>
  \<^verbatim>\<open>s.replace(/r/g, template)\<close>: the text is scanned from the left; where the pattern
  matches, the expanded template is emitted and the scan goes on after the match; where
  it does not, one character is copied. After an empty match the scan advances by one
  character. \<open>pre\<close> is the text already scanned, which a template may refer to.
\<close>

function regex_replace_from :: "regex \<Rightarrow> jsstring \<Rightarrow> jsstring \<Rightarrow> jsstring \<Rightarrow> jsstring" where
  "regex_replace_from r template pre [] =
     (case match_at r [] of
        None \<Rightarrow> []
      | Some (rest, caps) \<Rightarrow> get_substitution [] pre [] caps template)"
| "regex_replace_from r template pre (x # xs) =
     (case match_at r (x # xs) of
        None \<Rightarrow> x # regex_replace_from r template (pre @ [x]) xs
      | Some (rest, caps) \<Rightarrow>
          (if length rest < length (x # xs)
           then get_substitution (take (length (x # xs) - length rest) (x # xs)) pre rest caps template
                  @ regex_replace_from r template
                      (pre @ take (length (x # xs) - length rest) (x # xs)) rest
           else get_substitution [] pre (x # xs) caps template
                  @ x # regex_replace_from r template (pre @ [x]) xs))"
  by pat_completeness auto
termination
  by (relation "measure (\<lambda>(r, template, pre, s). length s)") auto

definition regex_replace_all :: "jsstring \<Rightarrow> regex \<Rightarrow> jsstring \<Rightarrow> jsstring" where
  "regex_replace_all s r template = regex_replace_from r template [] s"

section \<open>The rewrite of one source document\<close>

text \<open>
  The four \<^verbatim>\<open>code = code.replace(...)\<close> statements of \<^verbatim>\<open>handleDownload\<close>, in
  \<^verbatim>\<open>src/unnamed/part_001\<close> (lines 104 to 114, the pybind11 page) and in
  \<^verbatim>\<open>src/unnamed/part_002\<close> (lines 97 to 100, the memory-pool page).
\<close>

definition ws :: regex where
  "ws = Plus Space"

definition quote :: regex where
  "quote = Cls (Chars [39, 34])"

definition not_quotes :: regex where
  "not_quotes = Plus (Neg (Chars [39, 34]))"

text \<open>\<^verbatim>\<open>/import\s+[\s\S]*?from\s+['"][^'"]+['"];?/g\<close>\<close>

definition re_import_from :: regex where
  "re_import_from =
     seqs [Lit (str ''import''), ws, StarLazy (Or Space NonSpace), Lit (str ''from''), ws,
           quote, not_quotes, quote, Opt 59]"

text \<open>\<^verbatim>\<open>/import\s+['"][^'"]+['"];?/g\<close>\<close>

definition re_import_side_effect :: regex where
  "re_import_side_effect =
     seqs [Lit (str ''import''), ws, quote, not_quotes, quote, Opt 59]"

text \<open>\<^verbatim>\<open>/export\s+default\s+/g\<close>\<close>

definition re_export_default :: regex where
  "re_export_default = seqs [Lit (str ''export''), ws, Lit (str ''default''), ws]"

text \<open>\<^verbatim>\<open>/export\s+(const|function|class|interface|type|enum)/g\<close>\<close>

definition re_export_decl :: regex where
  "re_export_decl =
     seqs [Lit (str ''export''), ws,
           Group (alts [Lit (str ''const''), Lit (str ''function''), Lit (str ''class''),
                        Lit (str ''interface''), Lit (str ''type''), Lit (str ''enum'')])]"

text \<open>The four replacements of the pybind11 page's handler, in its order.\<close>

definition transform_pybind :: "jsstring \<Rightarrow> jsstring" where
  "transform_pybind code0 =
     (let code1 = regex_replace_all code0 re_import_from [];
          code2 = regex_replace_all code1 re_import_side_effect [];
          code3 = regex_replace_all code2 re_export_default [];
          code4 = regex_replace_all code3 re_export_decl (str ''$1'')
      in code4)"

text \<open>The four replacements of the memory-pool page's handler, in its order.\<close>

definition transform_mempool :: "jsstring \<Rightarrow> jsstring" where
  "transform_mempool code0 =
     (let code1 = regex_replace_all code0
                    (seqs [Lit (str ''import''), Plus Space, StarLazy (Or Space NonSpace),
                           Lit (str ''from''), Plus Space, Cls (Chars [39, 34]),
                           Plus (Neg (Chars [39, 34])), Cls (Chars [39, 34]), Opt 59]) [];
          code2 = regex_replace_all code1
                    (seqs [Lit (str ''import''), Plus Space, Cls (Chars [39, 34]),
                           Plus (Neg (Chars [39, 34])), Cls (Chars [39, 34]), Opt 59]) [];
          code3 = regex_replace_all code2
                    (seqs [Lit (str ''export''), Plus Space, Lit (str ''default''),
                           Plus Space]) [];
          code4 = regex_replace_all code3
                    (seqs [Lit (str ''export''), Plus Space,
                           Group (alts [Lit (str ''const''), Lit (str ''function''),
                                        Lit (str ''class''), Lit (str ''interface''),
                                        Lit (str ''type''), Lit (str ''enum'')])])
                    (str ''$1'')
      in code4)"

section \<open>The page and its network\<close>

text \<open>
  \<^verbatim>\<open>fetch\<close> either rejects (a network failure) or resolves to a response with its
  \<^verbatim>\<open>ok\<close> flag and its body text. The network is the answer to each URL.
\<close>

datatype fetch_result = Rejected | Response bool jsstring

type_synonym network = "jsstring \<Rightarrow> fetch_result"

datatype js_error = Error jsstring | NetworkError

text \<open>
  \<^verbatim>\<open>const res = await fetch(url); if (!res.ok) throw new Error(`Failed to fetch ${url}`);
  await res.text()\<close>: the body, or the exception thrown.
\<close>

definition fetch_text :: "network \<Rightarrow> jsstring \<Rightarrow> js_error + jsstring" where
  "fetch_text net url =
     (case net url of
        Rejected \<Rightarrow> Inl NetworkError
      | Response ok body \<Rightarrow>
          if \<not> ok then Inl (Error (str ''Failed to fetch '' @ url)) else Inr body)"

datatype console_entry = ConsoleWarn jsstring js_error | ConsoleError js_error

text \<open>
  What a handler can observe and change: the \<^verbatim>\<open>isDownloading\<close> flag of the component,
  the requests sent, the console, the alert dialogs shown and the archives handed to
  \<^verbatim>\<open>saveAs\<close> (the entries of the archive, in order, and the file name).
\<close>

type_synonym zip = "(jsstring \<times> jsstring) list"

record page =
  isDownloading :: bool
  requests :: "jsstring list"
  console :: "console_entry list"
  alerts :: "jsstring list"
  saved :: "(zip \<times> jsstring) list"

text \<open>\<^verbatim>\<open>zip.file(name, content)\<close>: a new entry, or the new content of an existing one.\<close>

fun zip_file :: "jsstring \<Rightarrow> jsstring \<Rightarrow> zip \<Rightarrow> zip" where
  "zip_file name content [] = [(name, content)]"
| "zip_file name content ((n, c) # z) =
     (if n = name then (name, content) # z else (n, c) # zip_file name content z)"

section \<open>Injecting the script\<close>

text \<open>
  The two handlers build the script block and inject it with the same code
  (\<^verbatim>\<open>part_001\<close> lines 125 to 138, \<^verbatim>\<open>part_002\<close> lines 107 to 117).
\<close>

definition babelScript :: jsstring where
  "babelScript =
     str ''<script src='' @ [34] @ str ''https://unpkg.com/@babel/standalone/babel.min.js'' @ [34] @ str ''></script>''"

definition mainScript :: "jsstring \<Rightarrow> jsstring" where
  "mainScript combinedCode =
     [10] @
     str ''    <script type='' @ [34] @ str ''text/babel'' @ [34] @ str '' data-type='' @ [34] @ str ''module'' @ [34] @ str '' data-presets='' @ [34] @ str ''typescript,react'' @ [34] @ str ''>'' @ [10] @
     combinedCode @
     [10] @
     str ''    </script>''"

definition inject_script :: "jsstring \<Rightarrow> jsstring \<Rightarrow> jsstring" where
  "inject_script html combinedCode =
     (if js_includes html (str ''</body>'')
      then string_replace html (str ''</body>'')
             (babelScript @ [10] @ mainScript combinedCode @ [10] @ str ''</body>'')
      else html @ babelScript @ [10] @ mainScript combinedCode)"

section \<open>The handler of the pybind11 page\<close>

text \<open>
  \<^verbatim>\<open>handleDownload\<close> of \<^verbatim>\<open>src/unnamed/part_001\<close>, lines 54 to 180. String literals
  are given as they are in the source; the numbers are the code units of the characters
  that are not ASCII, of the quotes and of the line feeds.
\<close>

definition masterImports_pybind :: jsstring where
  "masterImports_pybind =
     [10] @
     str ''import React, { useState, useEffect, useRef } from '' @ [39] @ str ''react'' @ [39] @ str '';'' @ [10] @
     str ''import ReactDOM from '' @ [39] @ str ''react-dom/client'' @ [39] @ str '';'' @ [10] @
     str ''import * as THREE from '' @ [39] @ str ''three'' @ [39] @ str '';'' @ [10] @
     str ''import { Canvas, useFrame } from '' @ [39] @ str ''@react-three/fiber'' @ [39] @ str '';'' @ [10] @
     str ''import { Float, MeshDistortMaterial, Sphere, Icosahedron, Box, Environment, Stars } from '' @ [39] @ str ''@react-three/drei'' @ [39] @ str '';'' @ [10] @
     str ''import { motion } from '' @ [39] @ str ''framer-motion'' @ [39] @ str '';'' @ [10] @
     str ''import { ArrowDown, Menu, X, ExternalLink, Code2, AlertTriangle, Layers, Download, Loader2, Check, Copy, Terminal, ArrowRight, ArrowLeftRight, Hammer, FileCode, Monitor, Lock, Trash2, Split, Scale, CheckCircle2, XCircle } from '' @ [39] @ str ''lucide-react'' @ [39] @ str '';'' @ [10] @
     str ''import JSZip from '' @ [39] @ str ''jszip'' @ [39] @ str '';'' @ [10] @
     str ''import saveAs from '' @ [39] @ str ''file-saver'' @ [39] @ str '';'' @ [10]"

definition filesToBundle_pybind :: "jsstring list" where
  "filesToBundle_pybind =
     [str ''types.ts'', str ''components/QuantumScene.tsx'', str ''components/Diagrams.tsx'',
      str ''App.tsx'', str ''index.tsx'']"

definition readme_pybind :: jsstring where
  "readme_pybind =
     str ''# pybind11 Website Source (bundled)'' @ [10] @
     [10] @
     str ''## '' @ [22914, 20309, 36816, 34892] @ str '' (How to Run)'' @ [10] @
     [10] @
     [27492, 29256, 26412, 24050, 23558, 25152, 26377] @ str '' TypeScript '' @ [28304, 30721, 21512, 24182, 21040] @ str '' `index.html` '' @ [20013, 65292, 26041, 20415, 26597, 30475, 21644, 35843, 35797, 12290, 10] @
     [10] @
     str ''### '' @ [27493, 39588] @ str '' (Steps)'' @ [10] @
     str ''1. '' @ [35299, 21387, 25991, 20214, 12290, 10] @
     str ''2. '' @ [22312, 35299, 21387, 30446, 24405, 25171, 24320, 32456, 31471, 12290, 10] @
     str ''3. '' @ [21551, 21160, 19968, 20010, 26412, 22320, 26381, 21153, 22120] @ str '' ('' @ [30001, 20110] @ str '' CORS '' @ [38480, 21046, 65292, 30452, 25509, 21452, 20987] @ str '' html '' @ [21487, 33021, 26080, 27861, 21152, 36733] @ str '' CDN '' @ [36164, 28304] @ str ''):'' @ [10] @
     str ''   '' @ [10] @
     str ''   **Python:**'' @ [10] @
     str ''   ```bash'' @ [10] @
     str ''   python -m http.server'' @ [10] @
     str ''   ```'' @ [10] @
     str ''   '' @ [10] @
     str ''   **Node.js:**'' @ [10] @
     str ''   ```bash'' @ [10] @
     str ''   npx serve'' @ [10] @
     str ''   ```'' @ [10] @
     [10] @
     str ''4. '' @ [22312, 27983, 35272, 22120, 35775, 38382] @ str '' `http://localhost:8000` ('' @ [25110] @ str '' 3000)'' @ [12290, 10] @
     [10] @
     str ''### '' @ [20381, 36182] @ str '' (Dependencies)'' @ [10] @
     [26412, 32593, 39029, 36816, 34892, 26102, 20381, 36182] @ str '' React, Three.js '' @ [31561] @ str '' CDN '' @ [36164, 28304, 65292, 35831, 30830, 20445] @ str ''**'' @ [32593, 32476, 36830, 25509, 27491, 24120] @ str ''**'' @ [12290, 10]"

text \<open>
  The loop over the files: each one is fetched and rewritten and goes into the combined
  code after its marker; a file that cannot be fetched leaves a warning on the console
  and a comment in the combined code, and the loop goes on.
\<close>

fun bundle_files_pybind :: "network \<Rightarrow> jsstring list \<Rightarrow> jsstring \<times> page \<Rightarrow> jsstring \<times> page" where
  "bundle_files_pybind net [] (combinedCode, p) = (combinedCode, p)"
| "bundle_files_pybind net (file # files) (combinedCode, p) =
     (case fetch_text net file of
        Inr code \<Rightarrow>
          bundle_files_pybind net files
            (combinedCode @ [10, 10] @ str ''/* --- Source: '' @ file @ str '' --- */'' @ [10]
               @ transform_pybind code @ [10],
             p\<lparr>requests := requests p @ [file]\<rparr>)
      | Inl e \<Rightarrow>
          bundle_files_pybind net files
            (combinedCode @ [10] @ str ''/* Error loading '' @ file @ str '' */'' @ [10],
             p\<lparr>requests := requests p @ [file],
               console := console p @ [ConsoleWarn (str ''Error processing '' @ file) e]\<rparr>))"

text \<open>
  The \<^verbatim>\<open>try\<close> block: the exception thrown, if any, the entries of the local
  \<^verbatim>\<open>zip\<close> object when the block is left, and the page.
\<close>

definition try_block_pybind :: "network \<Rightarrow> page \<Rightarrow> js_error option \<times> zip \<times> page" where
  "try_block_pybind net p =
     (let zip0 = [];
          p1 = p\<lparr>requests := requests p @ [str ''index.html'']\<rparr>
      in case fetch_text net (str ''index.html'') of
           Inl e \<Rightarrow> (Some e, zip0, p1)
         | Inr html \<Rightarrow>
             (let (combinedCode, p2) =
                    bundle_files_pybind net filesToBundle_pybind (masterImports_pybind, p1);
                  zip1 = zip_file (str ''index.html'') (inject_script html combinedCode) zip0;
                  zip2 = zip_file (str ''README.md'') readme_pybind zip1
              in (None, zip2,
                  p2\<lparr>saved := saved p2 @ [(zip2, str ''pybind11-website-bundled.zip'')]\<rparr>)))"

text \<open>The \<^verbatim>\<open>catch\<close> and \<^verbatim>\<open>finally\<close> blocks, run when the \<^verbatim>\<open>try\<close> block is left.\<close>

definition settle_pybind :: "js_error option \<times> zip \<times> page \<Rightarrow> page" where
  "settle_pybind r =
     (case r of
        (None, z, p) \<Rightarrow> p\<lparr>isDownloading := False\<rparr>
      | (Some err, z, p) \<Rightarrow>
          p\<lparr>console := console p @ [ConsoleError err],
            alerts := alerts p @ [[25171, 21253, 19979, 36733, 22833, 36133] @ str '' (Bundling Failed)''],
            isDownloading := False\<rparr>)"

definition handleDownload_pybind :: "network \<Rightarrow> page \<Rightarrow> page" where
  "handleDownload_pybind net p =
     (if isDownloading p then p
      else settle_pybind (try_block_pybind net (p\<lparr>isDownloading := True\<rparr>)))"

section \<open>The handler of the memory-pool page\<close>

text \<open>\<^verbatim>\<open>handleDownload\<close> of \<^verbatim>\<open>src/unnamed/part_002\<close>, lines 60 to 128.\<close>

definition masterImports_mempool :: jsstring where
  "masterImports_mempool =
     [10] @
     str ''import React, { useState, useEffect, useRef, useMemo } from '' @ [39] @ str ''react'' @ [39] @ str '';'' @ [10] @
     str ''import ReactDOM from '' @ [39] @ str ''react-dom/client'' @ [39] @ str '';'' @ [10] @
     str ''import * as THREE from '' @ [39] @ str ''three'' @ [39] @ str '';'' @ [10] @
     str ''import { Canvas, useFrame } from '' @ [39] @ str ''@react-three/fiber'' @ [39] @ str '';'' @ [10] @
     str ''import { Float, Box, Environment, Stars, Instances, Instance } from '' @ [39] @ str ''@react-three/drei'' @ [39] @ str '';'' @ [10] @
     str ''import { motion, AnimatePresence } from '' @ [39] @ str ''framer-motion'' @ [39] @ str '';'' @ [10] @
     str ''import { ArrowDown, Menu, X, ExternalLink, Code2, AlertTriangle, Layers, Download, Loader2, Check, Copy, Terminal, ArrowRight, Clock, Zap, Cpu, Hammer, FileCode, Monitor, Lock, Trash2, Split, Scale, CheckCircle2, XCircle, Server, Database, Bug, BookOpen, Component, Braces, AlertCircle, Info, Flame, Target, ShieldAlert, Workflow } from '' @ [39] @ str ''lucide-react'' @ [39] @ str '';'' @ [10] @
     str ''import JSZip from '' @ [39] @ str ''jszip'' @ [39] @ str '';'' @ [10] @
     str ''import saveAs from '' @ [39] @ str ''file-saver'' @ [39] @ str '';'' @ [10]"

definition filesToBundle_mempool :: "jsstring list" where
  "filesToBundle_mempool =
     [str ''types.ts'', str ''components/QuantumScene.tsx'', str ''components/Diagrams.tsx'',
      str ''App.tsx'', str ''index.tsx'']"

definition readme_mempool :: jsstring where
  "readme_mempool =
     str ''# Memory Pool Website Source'' @ [10] @
     [10] @
     str ''See index.html for bundled source.''"

text \<open>The same loop, but its \<^verbatim>\<open>catch\<close> block writes nothing to the console.\<close>

fun bundle_files_mempool :: "network \<Rightarrow> jsstring list \<Rightarrow> jsstring \<times> page \<Rightarrow> jsstring \<times> page" where
  "bundle_files_mempool net [] (combinedCode, p) = (combinedCode, p)"
| "bundle_files_mempool net (file # files) (combinedCode, p) =
     (case fetch_text net file of
        Inr code \<Rightarrow>
          bundle_files_mempool net files
            (combinedCode @ [10, 10] @ str ''/* --- Source: '' @ file @ str '' --- */'' @ [10]
               @ transform_mempool code @ [10],
             p\<lparr>requests := requests p @ [file]\<rparr>)
      | Inl e \<Rightarrow>
          bundle_files_mempool net files
            (combinedCode @ [10] @ str ''/* Error loading '' @ file @ str '' */'' @ [10],
             p\<lparr>requests := requests p @ [file]\<rparr>))"

definition try_block_mempool :: "network \<Rightarrow> page \<Rightarrow> js_error option \<times> zip \<times> page" where
  "try_block_mempool net p =
     (let zip0 = [];
          p1 = p\<lparr>requests := requests p @ [str ''index.html'']\<rparr>
      in case fetch_text net (str ''index.html'') of
           Inl e \<Rightarrow> (Some e, zip0, p1)
         | Inr html \<Rightarrow>
             (let (combinedCode, p2) =
                    bundle_files_mempool net filesToBundle_mempool (masterImports_mempool, p1);
                  zip1 = zip_file (str ''index.html'') (inject_script html combinedCode) zip0;
                  zip2 = zip_file (str ''README.md'') readme_mempool zip1
              in (None, zip2,
                  p2\<lparr>saved := saved p2 @ [(zip2, str ''memory-pool-site.zip'')]\<rparr>)))"

definition settle_mempool :: "js_error option \<times> zip \<times> page \<Rightarrow> page" where
  "settle_mempool r =
     (case r of
        (None, z, p) \<Rightarrow> p\<lparr>isDownloading := False\<rparr>
      | (Some err, z, p) \<Rightarrow>
          p\<lparr>alerts := alerts p @ [[25171, 21253, 19979, 36733, 22833, 36133]],
            isDownloading := False\<rparr>)"

definition handleDownload_mempool :: "network \<Rightarrow> page \<Rightarrow> page" where
  "handleDownload_mempool net p =
     (if isDownloading p then p
      else settle_mempool (try_block_mempool net (p\<lparr>isDownloading := True\<rparr>)))"

section \<open>Vocabulary of the specification\<close>

text \<open>
  What one file of the manifest contributes to the combined code: its rewritten text
  after a source-origin marker, or a placeholder comment when it could not be fetched.
\<close>

definition source_section :: "jsstring \<Rightarrow> jsstring \<Rightarrow> jsstring" where
  "source_section file code =
     [10, 10] @ str ''/* --- Source: '' @ file @ str '' --- */'' @ [10] @ code @ [10]"

definition error_placeholder :: "jsstring \<Rightarrow> jsstring" where
  "error_placeholder file = [10] @ str ''/* Error loading '' @ file @ str '' */'' @ [10]"

definition contribution_pybind :: "network \<Rightarrow> jsstring \<Rightarrow> jsstring" where
  "contribution_pybind net file =
     (case fetch_text net file of
        Inr code \<Rightarrow> source_section file (transform_pybind code)
      | Inl e \<Rightarrow> error_placeholder file)"

definition contribution_mempool :: "network \<Rightarrow> jsstring \<Rightarrow> jsstring" where
  "contribution_mempool net file =
     (case fetch_text net file of
        Inr code \<Rightarrow> source_section file (transform_mempool code)
      | Inl e \<Rightarrow> error_placeholder file)"

text \<open>The console warning for a file that could not be fetched.\<close>

definition warning_for :: "network \<Rightarrow> jsstring \<Rightarrow> console_entry list" where
  "warning_for net file =
     (case fetch_text net file of
        Inr code \<Rightarrow> []
      | Inl e \<Rightarrow> [ConsoleWarn (str ''Error processing '' @ file) e])"

text \<open>The script block that goes into the page.\<close>

definition script_block :: "jsstring \<Rightarrow> jsstring" where
  "script_block combinedCode = babelScript @ [10] @ mainScript combinedCode"

section \<open>The handler as a closure of its render\<close>

text \<open>
  In the component, \<^verbatim>\<open>const [isDownloading, setIsDownloading] = useState(false)\<close>
  (\<^verbatim>\<open>part_001\<close> line 29, \<^verbatim>\<open>part_002\<close> line 35) makes \<^verbatim>\<open>isDownloading\<close> a constant of
  one render, and \<^verbatim>\<open>handleDownload\<close> is a closure of that render: its guard tests the
  value the render saw, while \<^verbatim>\<open>setIsDownloading\<close> writes the state of the component.
  The handler is therefore a function of the value its render saw and of the page at the
  time of the call. \<open>handleDownload_pybind\<close> and \<open>handleDownload_mempool\<close> above are the
  call of a handler on the page its render saw.
\<close>

definition handleDownload_of_render_pybind :: "bool \<Rightarrow> network \<Rightarrow> page \<Rightarrow> page" where
  "handleDownload_of_render_pybind isDownloading_rendered net p =
     (if isDownloading_rendered then p
      else settle_pybind (try_block_pybind net (p\<lparr>isDownloading := True\<rparr>)))"

definition handleDownload_of_render_mempool :: "bool \<Rightarrow> network \<Rightarrow> page \<Rightarrow> page" where
  "handleDownload_of_render_mempool isDownloading_rendered net p =
     (if isDownloading_rendered then p
      else settle_mempool (try_block_mempool net (p\<lparr>isDownloading := True\<rparr>)))"

section \<open>Example inputs\<close>

definition idle_page :: page where
  "idle_page = \<lparr>isDownloading = False, requests = [], console = [], alerts = [], saved = []\<rparr>"

text \<open>
  A deployment that serves a small page and a one-line module under every other path,
  and answers the listed paths with status 404.
\<close>

definition example_net :: "jsstring list \<Rightarrow> network" where
  "example_net missing url =
     (if url \<in> set missing then Response False (str ''Not Found'')
      else if url = str ''index.html'' then Response True (str ''<body><p>page</p></body>'')
      else Response True (str ''export const x = 1;''))"

text \<open>
  A deployment whose page closes its \<^verbatim>\<open>body\<close> and \<^verbatim>\<open>html\<close> elements and whose
  modules are the line \<^verbatim>\<open>const unit = '$';\<close>.
\<close>

definition dollar_net :: network where
  "dollar_net url =
     (if url = str ''index.html'' then Response True (str ''<body><p>page</p></body></html>'')
      else Response True (str ''const unit = '' @ [39, 36, 39] @ str '';''))"

text \<open>A network that is down.\<close>

definition offline_net :: network where
  "offline_net url = Rejected"

section \<open>Prefixes and occurrences\<close>

lemmas regex_defs = re_import_from_def re_import_side_effect_def re_export_default_def
  re_export_decl_def ws_def quote_def not_quotes_def

lemmas eval_defs = str_def is_space_def is_digit_def digit_val_def match_at_def
  regex_replace_all_def

lemma strip_prefix_prefix: "strip_prefix p s = None \<longleftrightarrow> \<not> prefix p s"
proof (induction p arbitrary: s)
  case Nil
  show ?case by simp
next
  case (Cons a p)
  show ?case by (cases s) (auto simp: Cons.IH)
qed

lemma split_first_sublist: "split_first w s = None \<longleftrightarrow> \<not> sublist w s"
proof (induction s)
  case Nil
  show ?case by auto
next
  case (Cons x xs)
  show ?case
  proof (cases "strip_prefix w (x # xs)")
    case None
    then have "\<not> prefix w (x # xs)"
      by (simp add: strip_prefix_prefix)
    with None Cons.IH show ?thesis
      by (auto simp: sublist_Cons_right split: option.splits)
  next
    case (Some r)
    then have "prefix w (x # xs)"
      using strip_prefix_prefix [of w "x # xs"] by simp
    with Some show ?thesis
      by (simp add: sublist_Cons_right)
  qed
qed

lemma js_includes_sublist: "js_includes s w \<longleftrightarrow> sublist w s"
  by (simp add: js_includes_def split_first_sublist)

lemma split_first_Some_first:
  "split_first pat s = Some (b, a) \<Longrightarrow> \<forall>j<length b. \<not> prefix pat (drop j s)"
proof (induction s arbitrary: b)
  case Nil
  then show ?case by (simp split: if_splits)
next
  case (Cons x xs)
  show ?case
  proof (cases "strip_prefix pat (x # xs)")
    case (Some r)
    with Cons.prems show ?thesis by simp
  next
    case None
    then have here: "\<not> prefix pat (x # xs)"
      by (simp add: strip_prefix_prefix)
    from None Cons.prems obtain b' where b: "b = x # b'" and rec: "split_first pat xs = Some (b', a)"
      by (auto split: option.splits)
    from Cons.IH [OF rec] have later: "\<forall>j<length b'. \<not> prefix pat (drop j xs)" .
    show ?thesis
    proof (intro allI impI)
      fix j assume j: "j < length b"
      show "\<not> prefix pat (drop j (x # xs))"
      proof (cases j)
        case 0
        with here show ?thesis by simp
      next
        case (Suc i)
        with j b have "i < length b'" by simp
        with later Suc show ?thesis by simp
      qed
    qed
  qed
qed

section \<open>The loop and the try block\<close>

lemma bundle_files_pybind_eq:
  "bundle_files_pybind net files (code, p) =
     (code @ concat (map (contribution_pybind net) files),
      p\<lparr>requests := requests p @ files,
        console := console p @ concat (map (warning_for net) files)\<rparr>)"
  by (induction files arbitrary: code p)
     (auto simp: contribution_pybind_def warning_for_def source_section_def
        error_placeholder_def split: sum.splits)

lemma bundle_files_mempool_eq:
  "bundle_files_mempool net files (code, p) =
     (code @ concat (map (contribution_mempool net) files),
      p\<lparr>requests := requests p @ files\<rparr>)"
  by (induction files arbitrary: code p)
     (auto simp: contribution_mempool_def source_section_def error_placeholder_def
        split: sum.splits)

lemma try_block_pybind_ok:
  assumes "fetch_text net (str ''index.html'') = Inr html"
  shows "try_block_pybind net p =
    (None,
     [(str ''index.html'',
       inject_script html
         (masterImports_pybind @ concat (map (contribution_pybind net) filesToBundle_pybind))),
      (str ''README.md'', readme_pybind)],
     p\<lparr>requests := requests p @ str ''index.html'' # filesToBundle_pybind,
       console := console p @ concat (map (warning_for net) filesToBundle_pybind),
       saved := saved p @
         [([(str ''index.html'',
             inject_script html
               (masterImports_pybind
                  @ concat (map (contribution_pybind net) filesToBundle_pybind))),
            (str ''README.md'', readme_pybind)],
           str ''pybind11-website-bundled.zip'')]\<rparr>)"
proof -
  have ne: "str ''README.md'' \<noteq> str ''index.html''"
    by (simp add: str_def)
  show ?thesis
    using assms ne by (simp add: try_block_pybind_def bundle_files_pybind_eq Let_def)
qed

lemma try_block_mempool_ok:
  assumes "fetch_text net (str ''index.html'') = Inr html"
  shows "try_block_mempool net p =
    (None,
     [(str ''index.html'',
       inject_script html
         (masterImports_mempool
            @ concat (map (contribution_mempool net) filesToBundle_mempool))),
      (str ''README.md'', readme_mempool)],
     p\<lparr>requests := requests p @ str ''index.html'' # filesToBundle_mempool,
       saved := saved p @
         [([(str ''index.html'',
             inject_script html
               (masterImports_mempool
                  @ concat (map (contribution_mempool net) filesToBundle_mempool))),
            (str ''README.md'', readme_mempool)],
           str ''memory-pool-site.zip'')]\<rparr>)"
proof -
  have ne: "str ''README.md'' \<noteq> str ''index.html''"
    by (simp add: str_def)
  show ?thesis
    using assms ne by (simp add: try_block_mempool_def bundle_files_mempool_eq Let_def)
qed

lemma try_block_pybind_fail:
  assumes "fetch_text net (str ''index.html'') = Inl e"
  shows "try_block_pybind net p = (Some e, [], p\<lparr>requests := requests p @ [str ''index.html'']\<rparr>)"
  using assms by (simp add: try_block_pybind_def)

lemma try_block_mempool_fail:
  assumes "fetch_text net (str ''index.html'') = Inl e"
  shows "try_block_mempool net p = (Some e, [], p\<lparr>requests := requests p @ [str ''index.html'']\<rparr>)"
  using assms by (simp add: try_block_mempool_def)

section \<open>Injection of a script without dollar signs\<close>

lemma strip_prefix_Some_iff: "strip_prefix p s = Some r \<longleftrightarrow> s = p @ r"
proof (induction p arbitrary: s)
  case Nil
  show ?case by auto
next
  case (Cons a p)
  show ?case by (cases s) (auto simp: Cons.IH)
qed

lemma split_first_SomeD: "split_first pat s = Some (b, a) \<Longrightarrow> s = b @ pat @ a"
proof (induction s arbitrary: b)
  case Nil
  then show ?case by (simp split: if_splits)
next
  case (Cons x xs)
  then show ?case
    by (auto simp: strip_prefix_Some_iff split: option.splits)
qed

lemma get_substitution_plain:
  "36 \<notin> set t \<Longrightarrow> get_substitution m b a caps t = t"
  by (induction m b a caps t rule: get_substitution.induct) auto

lemma script_block_plain:
  "36 \<notin> set code \<Longrightarrow> 36 \<notin> set (babelScript @ [10] @ mainScript code @ [10] @ str ''</body>'')"
  by (simp add: babelScript_def mainScript_def str_def)

lemma inject_script_plain:
  assumes "36 \<notin> set code"
  shows "inject_script html code =
    (case split_first (str ''</body>'') html of
       None \<Rightarrow> html @ script_block code
     | Some (b, a) \<Rightarrow> b @ script_block code @ [10] @ str ''</body>'' @ a)"
  using script_block_plain [OF assms]
  by (simp add: inject_script_def js_includes_def string_replace_def script_block_def
      get_substitution_plain split: option.splits)

lemma no_dollar_masterImports_pybind: "36 \<notin> set masterImports_pybind"
  by (simp add: masterImports_pybind_def str_def)

lemma no_dollar_masterImports_mempool: "36 \<notin> set masterImports_mempool"
  by (simp add: masterImports_mempool_def str_def)

lemma no_dollar_placeholders_pybind:
  "36 \<notin> set (concat (map error_placeholder filesToBundle_pybind))"
  by (simp add: filesToBundle_pybind_def error_placeholder_def str_def)

lemma no_dollar_placeholders_mempool:
  "36 \<notin> set (concat (map error_placeholder filesToBundle_mempool))"
  by (simp add: filesToBundle_mempool_def error_placeholder_def str_def)

lemma handleDownload_pybind_ok:
  assumes "fetch_text net (str ''index.html'') = Inr html" and "\<not> isDownloading p"
  shows "handleDownload_pybind net p =
     p\<lparr>requests := requests p @ str ''index.html'' # filesToBundle_pybind,
       console := console p @ concat (map (warning_for net) filesToBundle_pybind),
       saved := saved p @
         [([(str ''index.html'',
             inject_script html
               (masterImports_pybind
                  @ concat (map (contribution_pybind net) filesToBundle_pybind))),
            (str ''README.md'', readme_pybind)],
           str ''pybind11-website-bundled.zip'')]\<rparr>"
  using assms
  by (simp add: handleDownload_pybind_def settle_pybind_def try_block_pybind_ok)

lemma handleDownload_mempool_ok:
  assumes "fetch_text net (str ''index.html'') = Inr html" and "\<not> isDownloading p"
  shows "handleDownload_mempool net p =
     p\<lparr>requests := requests p @ str ''index.html'' # filesToBundle_mempool,
       saved := saved p @
         [([(str ''index.html'',
             inject_script html
               (masterImports_mempool
                  @ concat (map (contribution_mempool net) filesToBundle_mempool))),
            (str ''README.md'', readme_mempool)],
           str ''memory-pool-site.zip'')]\<rparr>"
  using assms
  by (simp add: handleDownload_mempool_def settle_mempool_def try_block_mempool_ok)

lemma all_failed_pybind:
  assumes "\<forall>file \<in> set files. isl (fetch_text net file)"
  shows "map (contribution_pybind net) files = map error_placeholder files"
  using assms by (auto simp: contribution_pybind_def split: sum.splits)

lemma all_failed_mempool:
  assumes "\<forall>file \<in> set files. isl (fetch_text net file)"
  shows "map (contribution_mempool net) files = map error_placeholder files"
  using assms by (auto simp: contribution_mempool_def split: sum.splits)

section \<open>What the archive depends on\<close>

text \<open>
  The entries and the file name handed to \<^verbatim>\<open>saveAs\<close> are determined by the answers
  to the requests for the base document and for the files of the manifest, and by
  nothing else of the network or the page. (The bytes of the archive are the work of
  the zip library and are not modelled.)
\<close>

lemma saved_depends_on_fetched_texts_pybind:
  assumes "fetch_text net1 (str ''index.html'') = fetch_text net2 (str ''index.html'')"
    and "\<forall>file \<in> set filesToBundle_pybind. fetch_text net1 file = fetch_text net2 file"
    and "saved p1 = saved p2" and "isDownloading p1 = isDownloading p2"
  shows "saved (handleDownload_pybind net1 p1) = saved (handleDownload_pybind net2 p2)"
proof (cases "isDownloading p1")
  case True
  with assms(3,4) show ?thesis
    by (simp add: handleDownload_pybind_def)
next
  case idle: False
  have same: "map (contribution_pybind net1) filesToBundle_pybind
      = map (contribution_pybind net2) filesToBundle_pybind"
    using assms(2) by (simp add: contribution_pybind_def)
  show ?thesis
  proof (cases "fetch_text net1 (str ''index.html'')")
    case (Inl e)
    with assms(1) have "fetch_text net2 (str ''index.html'') = Inl e"
      by simp
    from try_block_pybind_fail [OF Inl] try_block_pybind_fail [OF this] assms(3,4) idle
    show ?thesis
      by (simp add: handleDownload_pybind_def settle_pybind_def)
  next
    case (Inr html)
    with assms(1) have f2: "fetch_text net2 (str ''index.html'') = Inr html"
      by simp
    from idle assms(4) have idle2: "\<not> isDownloading p2"
      by simp
    show ?thesis
      by (simp add: handleDownload_pybind_ok [OF Inr idle] handleDownload_pybind_ok [OF f2 idle2]
          same assms(3))
  qed
qed

lemma saved_depends_on_fetched_texts_mempool:
  assumes "fetch_text net1 (str ''index.html'') = fetch_text net2 (str ''index.html'')"
    and "\<forall>file \<in> set filesToBundle_mempool. fetch_text net1 file = fetch_text net2 file"
    and "saved p1 = saved p2" and "isDownloading p1 = isDownloading p2"
  shows "saved (handleDownload_mempool net1 p1) = saved (handleDownload_mempool net2 p2)"
proof (cases "isDownloading p1")
  case True
  with assms(3,4) show ?thesis
    by (simp add: handleDownload_mempool_def)
next
  case idle: False
  have same: "map (contribution_mempool net1) filesToBundle_mempool
      = map (contribution_mempool net2) filesToBundle_mempool"
    using assms(2) by (simp add: contribution_mempool_def)
  show ?thesis
  proof (cases "fetch_text net1 (str ''index.html'')")
    case (Inl e)
    with assms(1) have "fetch_text net2 (str ''index.html'') = Inl e"
      by simp
    from try_block_mempool_fail [OF Inl] try_block_mempool_fail [OF this] assms(3,4) idle
    show ?thesis
      by (simp add: handleDownload_mempool_def settle_mempool_def)
  next
    case (Inr html)
    with assms(1) have f2: "fetch_text net2 (str ''index.html'') = Inr html"
      by simp
    from idle assms(4) have idle2: "\<not> isDownloading p2"
      by simp
    show ?thesis
      by (simp add: handleDownload_mempool_ok [OF Inr idle] handleDownload_mempool_ok [OF f2 idle2]
          same assms(3))
  qed
qed

section \<open>The rewrite of a fetched document\<close>

text \<open>
  Claim C1 at a failing input: a fetched document that is the line
  \<^verbatim>\<open>export let x = 1;\<close>. The claim asks that no export qualifier is left on a
  top-level declaration, and the handler's comment on its fourth replacement says
  ``Remove 'export' keyword from declarations''; but the pattern of that replacement
  lists \<^verbatim>\<open>const\<close>, \<^verbatim>\<open>function\<close>, \<^verbatim>\<open>class\<close>, \<^verbatim>\<open>interface\<close>, \<^verbatim>\<open>type\<close> and
  \<^verbatim>\<open>enum\<close> only, and the document comes out of the four replacements as it went in,
  on both pages.
\<close>

theorem export_let_survives:
  "transform_pybind (str ''export let x = 1;'') = str ''export let x = 1;''
   \<and> transform_mempool (str ''export let x = 1;'') = str ''export let x = 1;''"
  by (simp add: transform_pybind_def transform_mempool_def regex_defs str_def is_space_def
      match_at_def regex_replace_all_def)

text \<open>
  Each replacement is a single pass from left to right, so a qualifier that faces its
  keyword only once another qualifier has been removed is left as well.
\<close>

lemma single_pass_leaves_a_qualifier:
  "transform_pybind (str ''export export const x = 1;'') = str ''export const x = 1;''"
  by (simp add: transform_pybind_def regex_defs eval_defs)

section \<open>The two rewrites are one function\<close>

text \<open>
  Claim C9. The four replacements of the pybind11 page's handler and the four of the
  memory-pool page's handler give the same text on every input.
\<close>

theorem transform_variants_agree: "transform_mempool code = transform_pybind code"
  by (simp add: transform_mempool_def transform_pybind_def regex_defs)

section \<open>Failure of the base document\<close>

text \<open>
  Claim C2. When the fetch of \<^verbatim>\<open>index.html\<close> fails (the request is rejected or the
  response is not ok), an invocation that passes the guard leaves the \<^verbatim>\<open>try\<close> block
  with an empty zip object, hands nothing to \<^verbatim>\<open>saveAs\<close>, shows exactly one alert,
  requests nothing but the base document, and ends with the flag reset. This holds for
  both handlers.
\<close>

theorem base_fetch_failure_aborts:
  assumes "fetch_text net (str ''index.html'') = Inl e" and "\<not> isDownloading p"
  shows "fst (snd (try_block_pybind net (p\<lparr>isDownloading := True\<rparr>))) = []
       \<and> saved (handleDownload_pybind net p) = saved p
       \<and> alerts (handleDownload_pybind net p) =
           alerts p @ [[25171, 21253, 19979, 36733, 22833, 36133] @ str '' (Bundling Failed)'']
       \<and> requests (handleDownload_pybind net p) = requests p @ [str ''index.html'']
       \<and> \<not> isDownloading (handleDownload_pybind net p)
       \<and> fst (snd (try_block_mempool net (p\<lparr>isDownloading := True\<rparr>))) = []
       \<and> saved (handleDownload_mempool net p) = saved p
       \<and> alerts (handleDownload_mempool net p) =
           alerts p @ [[25171, 21253, 19979, 36733, 22833, 36133]]
       \<and> requests (handleDownload_mempool net p) = requests p @ [str ''index.html'']
       \<and> \<not> isDownloading (handleDownload_mempool net p)"
  using assms
  by (simp add: handleDownload_pybind_def handleDownload_mempool_def settle_pybind_def
      settle_mempool_def try_block_pybind_fail try_block_mempool_fail)

theorem base_fetch_failure_aborts_witness:
  "fetch_text offline_net (str ''index.html'') = Inl NetworkError
   \<and> \<not> isDownloading idle_page
   \<and> saved (handleDownload_pybind offline_net idle_page) = []
   \<and> length (alerts (handleDownload_pybind offline_net idle_page)) = 1
   \<and> \<not> isDownloading (handleDownload_pybind offline_net idle_page)
   \<and> saved (handleDownload_mempool offline_net idle_page) = []
   \<and> length (alerts (handleDownload_mempool offline_net idle_page)) = 1
   \<and> \<not> isDownloading (handleDownload_mempool offline_net idle_page)"
proof -
  have h1: "fetch_text offline_net (str ''index.html'') = Inl NetworkError"
    by (simp add: fetch_text_def offline_net_def)
  have h2: "\<not> isDownloading idle_page"
    by (simp add: idle_page_def)
  show ?thesis
    using h1 h2 base_fetch_failure_aborts [OF h1 h2] by (simp add: idle_page_def)
qed

section \<open>Facts about the example inputs\<close>

lemma example_net_base: "fetch_text (example_net missing) (str ''index.html'') =
  (if str ''index.html'' \<in> set missing then Inl (Error (str ''Failed to fetch index.html''))
   else Inr (str ''<body><p>page</p></body>''))"
  by (simp add: fetch_text_def example_net_def str_def)

lemma idle_page_idle: "\<not> isDownloading idle_page"
  by (simp add: idle_page_def)

section \<open>Failure of a manifest file\<close>

text \<open>
  Claim C3, as stated, asks for a console warning on both pages. On the memory-pool
  page a file that answers 404 leaves the console empty.
\<close>

theorem mempool_failure_not_warned:
  "fetch_text (example_net [str ''types.ts'']) (str ''types.ts'')
     = Inl (Error (str ''Failed to fetch types.ts''))
   \<and> console (handleDownload_mempool (example_net [str ''types.ts'']) idle_page) = []"
proof -
  have h1: "fetch_text (example_net [str ''types.ts'']) (str ''index.html'')
      = Inr (str ''<body><p>page</p></body>'')"
    by (simp add: example_net_base) (simp add: str_def)
  have h2: "fetch_text (example_net [str ''types.ts'']) (str ''types.ts'')
     = Inl (Error (str ''Failed to fetch types.ts''))"
    by (simp add: fetch_text_def example_net_def str_def)
  show ?thesis
    using h2 by (simp add: handleDownload_mempool_ok [OF h1 idle_page_idle]) (simp add: idle_page_def)
qed

text \<open>
  Claim C3, amended. When a manifest file cannot be fetched, neither handler aborts: the
  file contributes a placeholder comment with its path to the combined code, every file
  of the manifest is still requested, no alert is shown and the archive is saved with
  the other files' contributions as usual. The pybind11 page writes one console warning
  for each such file; the memory-pool page writes nothing to the console.
\<close>

theorem file_failure_degrades:
  assumes "fetch_text net (str ''index.html'') = Inr html" and "\<not> isDownloading p"
    and "fetch_text net file = Inl e"
  shows "contribution_pybind net file = [10] @ str ''/* Error loading '' @ file @ str '' */'' @ [10]
       \<and> contribution_mempool net file = [10] @ str ''/* Error loading '' @ file @ str '' */'' @ [10]
       \<and> warning_for net file = [ConsoleWarn (str ''Error processing '' @ file) e]
       \<and> saved (handleDownload_pybind net p) =
           saved p @
           [([(str ''index.html'',
               inject_script html
                 (masterImports_pybind
                    @ concat (map (contribution_pybind net) filesToBundle_pybind))),
              (str ''README.md'', readme_pybind)],
             str ''pybind11-website-bundled.zip'')]
       \<and> console (handleDownload_pybind net p) =
           console p @ concat (map (warning_for net) filesToBundle_pybind)
       \<and> requests (handleDownload_pybind net p) =
           requests p @ str ''index.html'' # filesToBundle_pybind
       \<and> alerts (handleDownload_pybind net p) = alerts p
       \<and> saved (handleDownload_mempool net p) =
           saved p @
           [([(str ''index.html'',
               inject_script html
                 (masterImports_mempool
                    @ concat (map (contribution_mempool net) filesToBundle_mempool))),
              (str ''README.md'', readme_mempool)],
             str ''memory-pool-site.zip'')]
       \<and> console (handleDownload_mempool net p) = console p
       \<and> requests (handleDownload_mempool net p) =
           requests p @ str ''index.html'' # filesToBundle_mempool
       \<and> alerts (handleDownload_mempool net p) = alerts p"
  using assms(3)
  by (simp add: handleDownload_pybind_ok [OF assms(1,2)] handleDownload_mempool_ok [OF assms(1,2)]
      contribution_pybind_def contribution_mempool_def warning_for_def error_placeholder_def)

theorem file_failure_degrades_witness:
  "fetch_text (example_net [str ''App.tsx'']) (str ''index.html'')
     = Inr (str ''<body><p>page</p></body>'')
   \<and> \<not> isDownloading idle_page
   \<and> fetch_text (example_net [str ''App.tsx'']) (str ''App.tsx'')
     = Inl (Error (str ''Failed to fetch App.tsx''))
   \<and> contribution_pybind (example_net [str ''App.tsx'']) (str ''App.tsx'')
     = [10] @ str ''/* Error loading App.tsx */'' @ [10]
   \<and> console (handleDownload_pybind (example_net [str ''App.tsx'']) idle_page)
     = [ConsoleWarn (str ''Error processing App.tsx'') (Error (str ''Failed to fetch App.tsx''))]
   \<and> length (saved (handleDownload_pybind (example_net [str ''App.tsx'']) idle_page)) = 1
   \<and> length (saved (handleDownload_mempool (example_net [str ''App.tsx'']) idle_page)) = 1"
proof -
  have h1: "fetch_text (example_net [str ''App.tsx'']) (str ''index.html'')
      = Inr (str ''<body><p>page</p></body>'')"
    by (simp add: example_net_base) (simp add: str_def)
  have h3: "fetch_text (example_net [str ''App.tsx'']) (str ''App.tsx'')
     = Inl (Error (str ''Failed to fetch App.tsx''))"
    by (simp add: fetch_text_def example_net_def str_def)
  have w: "concat (map (warning_for (example_net [str ''App.tsx''])) filesToBundle_pybind)
     = [ConsoleWarn (str ''Error processing App.tsx'') (Error (str ''Failed to fetch App.tsx''))]"
    by (simp add: filesToBundle_pybind_def warning_for_def fetch_text_def example_net_def str_def)
  show ?thesis
    using h1 idle_page_idle h3 w file_failure_degrades [OF h1 idle_page_idle h3]
    by (simp add: idle_page_def) (simp add: str_def)
qed

section \<open>The archive\<close>

text \<open>
  Claim C8, as stated, asks for example local-server commands in the README of both
  pages. The README of the memory-pool page is a two-line note without any.
\<close>

theorem mempool_readme_has_no_commands:
  "map_of (fst (last (saved (handleDownload_mempool (example_net []) idle_page))))
      (str ''README.md'')
     = Some (str ''# Memory Pool Website Source'' @ [10, 10]
             @ str ''See index.html for bundled source.'')
   \<and> \<not> js_includes (str ''# Memory Pool Website Source'' @ [10, 10]
             @ str ''See index.html for bundled source.'') (str ''server'')"
proof -
  have h1: "fetch_text (example_net []) (str ''index.html'') = Inr (str ''<body><p>page</p></body>'')"
    by (simp add: example_net_base)
  have ne: "str ''README.md'' \<noteq> str ''index.html''"
    by (simp add: str_def)
  have a: "map_of (fst (last (saved (handleDownload_mempool (example_net []) idle_page))))
      (str ''README.md'') = Some readme_mempool"
    using ne by (simp add: handleDownload_mempool_ok [OF h1 idle_page_idle])
  have b: "\<not> js_includes (str ''# Memory Pool Website Source'' @ [10, 10]
             @ str ''See index.html for bundled source.'') (str ''server'')"
    by (simp add: js_includes_def str_def)
  from a b show ?thesis
    by (simp add: readme_mempool_def)
qed

text \<open>
  Claim C8, amended. A successful invocation saves an archive of exactly two entries,
  \<^verbatim>\<open>index.html\<close> (the base document with the script injected) and \<^verbatim>\<open>README.md\<close>, a
  fixed text for each page: on the pybind11 page run instructions with the commands
  \<^verbatim>\<open>python -m http.server\<close> and \<^verbatim>\<open>npx serve\<close>, on the memory-pool page a note that
  points to \<^verbatim>\<open>index.html\<close>. The file name is a fixed literal for each page, and the
  two differ.
\<close>

theorem archive_entries_and_names:
  assumes "fetch_text net (str ''index.html'') = Inr html" and "\<not> isDownloading p"
  shows "saved (handleDownload_pybind net p) =
           saved p @
           [([(str ''index.html'',
               inject_script html
                 (masterImports_pybind
                    @ concat (map (contribution_pybind net) filesToBundle_pybind))),
              (str ''README.md'', readme_pybind)],
             str ''pybind11-website-bundled.zip'')]
       \<and> saved (handleDownload_mempool net p) =
           saved p @
           [([(str ''index.html'',
               inject_script html
                 (masterImports_mempool
                    @ concat (map (contribution_mempool net) filesToBundle_mempool))),
              (str ''README.md'', readme_mempool)],
             str ''memory-pool-site.zip'')]
       \<and> js_includes readme_pybind (str ''python -m http.server'')
       \<and> js_includes readme_pybind (str ''npx serve'')
       \<and> readme_mempool = str ''# Memory Pool Website Source'' @ [10, 10]
             @ str ''See index.html for bundled source.''
       \<and> str ''pybind11-website-bundled.zip'' \<noteq> str ''memory-pool-site.zip''"
proof -
  have a: "js_includes readme_pybind (str ''python -m http.server'')"
    by (simp add: js_includes_def readme_pybind_def str_def)
  have b: "js_includes readme_pybind (str ''npx serve'')"
    by (simp add: js_includes_def readme_pybind_def str_def)
  have c: "str ''pybind11-website-bundled.zip'' \<noteq> str ''memory-pool-site.zip''"
    by (simp add: str_def)
  show ?thesis
    using a b c
    by (simp add: handleDownload_pybind_ok [OF assms] handleDownload_mempool_ok [OF assms]
        readme_mempool_def)
qed

theorem archive_entries_and_names_witness:
  "fetch_text (example_net []) (str ''index.html'') = Inr (str ''<body><p>page</p></body>'')
   \<and> \<not> isDownloading idle_page
   \<and> map (map fst \<circ> fst) (saved (handleDownload_pybind (example_net []) idle_page))
       = [[str ''index.html'', str ''README.md'']]
   \<and> map snd (saved (handleDownload_pybind (example_net []) idle_page))
       = [str ''pybind11-website-bundled.zip'']
   \<and> map (map fst \<circ> fst) (saved (handleDownload_mempool (example_net []) idle_page))
       = [[str ''index.html'', str ''README.md'']]
   \<and> map snd (saved (handleDownload_mempool (example_net []) idle_page))
       = [str ''memory-pool-site.zip'']"
proof -
  have h1: "fetch_text (example_net []) (str ''index.html'') = Inr (str ''<body><p>page</p></body>'')"
    by (simp add: example_net_base)
  show ?thesis
    using h1 idle_page_idle archive_entries_and_names [OF h1 idle_page_idle]
    by (simp add: idle_page_def)
qed

section \<open>The base document is the only point of abort\<close>

text \<open>
  Claim C10. When the base document is fetched, the \<^verbatim>\<open>try\<close> block is left without an
  exception whatever happens to the manifest's files: one archive is saved and no alert
  is shown. When every file of the manifest fails, the \<^verbatim>\<open>index.html\<close> of the archive
  is the base document with the two script elements put in before the first
  \<^verbatim>\<open></body>\<close> (or at the end when there is none), and the text of the inline script
  is the master preamble followed by one placeholder comment for each path of the
  manifest, in the manifest's order.
\<close>

lemma all_failed_block_pybind:
  "script_block (masterImports_pybind @ concat (map error_placeholder filesToBundle_pybind)) =
     str ''<script src='' @ [34] @ str ''https://unpkg.com/@babel/standalone/babel.min.js'' @ [34] @ str ''></script>'' @ [10] @
                      [10] @ str ''    <script type='' @ [34] @ str ''text/babel'' @ [34] @ str '' data-type='' @ [34] @ str ''module'' @ [34] @ str '' data-presets='' @ [34] @ str ''typescript,react'' @ [34] @ str ''>'' @ [10] @
                      masterImports_pybind @
                      [10] @ str ''/* Error loading types.ts */'' @ [10] @
                      [10] @ str ''/* Error loading components/QuantumScene.tsx */'' @ [10] @
                      [10] @ str ''/* Error loading components/Diagrams.tsx */'' @ [10] @
                      [10] @ str ''/* Error loading App.tsx */'' @ [10] @
                      [10] @ str ''/* Error loading index.tsx */'' @ [10] @
                      [10] @ str ''    </script>''"
  by (simp add: script_block_def babelScript_def mainScript_def error_placeholder_def
      filesToBundle_pybind_def) (simp add: str_def)

lemma all_failed_block_mempool:
  "script_block (masterImports_mempool @ concat (map error_placeholder filesToBundle_mempool)) =
     str ''<script src='' @ [34] @ str ''https://unpkg.com/@babel/standalone/babel.min.js'' @ [34] @ str ''></script>'' @ [10] @
                      [10] @ str ''    <script type='' @ [34] @ str ''text/babel'' @ [34] @ str '' data-type='' @ [34] @ str ''module'' @ [34] @ str '' data-presets='' @ [34] @ str ''typescript,react'' @ [34] @ str ''>'' @ [10] @
                      masterImports_mempool @
                      [10] @ str ''/* Error loading types.ts */'' @ [10] @
                      [10] @ str ''/* Error loading components/QuantumScene.tsx */'' @ [10] @
                      [10] @ str ''/* Error loading components/Diagrams.tsx */'' @ [10] @
                      [10] @ str ''/* Error loading App.tsx */'' @ [10] @
                      [10] @ str ''/* Error loading index.tsx */'' @ [10] @
                      [10] @ str ''    </script>''"
  by (simp add: script_block_def babelScript_def mainScript_def error_placeholder_def
      filesToBundle_mempool_def) (simp add: str_def)

lemma injected_where:
  assumes "36 \<notin> set code"
  shows "\<exists>b a. inject_script html code = b @ script_block code @ a
           \<and> ((\<not> sublist (str ''</body>'') html \<and> b = html \<and> a = [])
              \<or> (\<exists>rest. html = b @ str ''</body>'' @ rest
                    \<and> (\<forall>j<length b. \<not> prefix (str ''</body>'') (drop j html))
                    \<and> a = [10] @ str ''</body>'' @ rest))"
proof (cases "split_first (str ''</body>'') html")
  case None
  then have "\<not> sublist (str ''</body>'') html"
    by (simp add: split_first_sublist)
  moreover from None have "inject_script html code = html @ script_block code @ []"
    by (simp add: inject_script_plain [OF assms])
  ultimately show ?thesis by blast
next
  case (Some r)
  obtain b rest where r: "r = (b, rest)" by (cases r)
  from Some r have "html = b @ str ''</body>'' @ rest"
    by (simp add: split_first_SomeD)
  moreover from Some r have "\<forall>j<length b. \<not> prefix (str ''</body>'') (drop j html)"
    by (simp add: split_first_Some_first)
  moreover from Some r
  have "inject_script html code = b @ script_block code @ [10] @ str ''</body>'' @ rest"
    by (simp add: inject_script_plain [OF assms])
  ultimately show ?thesis by blast
qed

theorem only_base_failure_aborts:
  assumes "fetch_text net (str ''index.html'') = Inr html" and "\<not> isDownloading p"
  shows "fst (try_block_pybind net (p\<lparr>isDownloading := True\<rparr>)) = None
       \<and> fst (try_block_mempool net (p\<lparr>isDownloading := True\<rparr>)) = None
       \<and> length (saved (handleDownload_pybind net p)) = length (saved p) + 1
       \<and> length (saved (handleDownload_mempool net p)) = length (saved p) + 1
       \<and> alerts (handleDownload_pybind net p) = alerts p
       \<and> alerts (handleDownload_mempool net p) = alerts p
       \<and> ((\<forall>file \<in> set filesToBundle_pybind. isl (fetch_text net file)) \<longrightarrow>
            (\<exists>b a.
               saved (handleDownload_pybind net p) =
                 saved p @
                 [([(str ''index.html'',
                     b @
                     (str ''<script src='' @ [34] @ str ''https://unpkg.com/@babel/standalone/babel.min.js'' @ [34] @ str ''></script>'' @ [10] @
                      [10] @ str ''    <script type='' @ [34] @ str ''text/babel'' @ [34] @ str '' data-type='' @ [34] @ str ''module'' @ [34] @ str '' data-presets='' @ [34] @ str ''typescript,react'' @ [34] @ str ''>'' @ [10] @
                      masterImports_pybind @
                      [10] @ str ''/* Error loading types.ts */'' @ [10] @
                      [10] @ str ''/* Error loading components/QuantumScene.tsx */'' @ [10] @
                      [10] @ str ''/* Error loading components/Diagrams.tsx */'' @ [10] @
                      [10] @ str ''/* Error loading App.tsx */'' @ [10] @
                      [10] @ str ''/* Error loading index.tsx */'' @ [10] @
                      [10] @ str ''    </script>'') @
                     a),
                    (str ''README.md'', readme_pybind)],
                   str ''pybind11-website-bundled.zip'')]
               \<and> ((\<not> sublist (str ''</body>'') html \<and> b = html \<and> a = [])
                  \<or> (\<exists>rest. html = b @ str ''</body>'' @ rest
                        \<and> (\<forall>j<length b. \<not> prefix (str ''</body>'') (drop j html))
                        \<and> a = [10] @ str ''</body>'' @ rest))))
       \<and> ((\<forall>file \<in> set filesToBundle_mempool. isl (fetch_text net file)) \<longrightarrow>
            (\<exists>b a.
               saved (handleDownload_mempool net p) =
                 saved p @
                 [([(str ''index.html'',
                     b @
                     (str ''<script src='' @ [34] @ str ''https://unpkg.com/@babel/standalone/babel.min.js'' @ [34] @ str ''></script>'' @ [10] @
                      [10] @ str ''    <script type='' @ [34] @ str ''text/babel'' @ [34] @ str '' data-type='' @ [34] @ str ''module'' @ [34] @ str '' data-presets='' @ [34] @ str ''typescript,react'' @ [34] @ str ''>'' @ [10] @
                      masterImports_mempool @
                      [10] @ str ''/* Error loading types.ts */'' @ [10] @
                      [10] @ str ''/* Error loading components/QuantumScene.tsx */'' @ [10] @
                      [10] @ str ''/* Error loading components/Diagrams.tsx */'' @ [10] @
                      [10] @ str ''/* Error loading App.tsx */'' @ [10] @
                      [10] @ str ''/* Error loading index.tsx */'' @ [10] @
                      [10] @ str ''    </script>'') @
                     a),
                    (str ''README.md'', readme_mempool)],
                   str ''memory-pool-site.zip'')]
               \<and> ((\<not> sublist (str ''</body>'') html \<and> b = html \<and> a = [])
                  \<or> (\<exists>rest. html = b @ str ''</body>'' @ rest
                        \<and> (\<forall>j<length b. \<not> prefix (str ''</body>'') (drop j html))
                        \<and> a = [10] @ str ''</body>'' @ rest))))"
proof -
  have py: "36 \<notin> set (masterImports_pybind @ concat (map error_placeholder filesToBundle_pybind))"
    using no_dollar_masterImports_pybind no_dollar_placeholders_pybind by simp
  have mp: "36 \<notin> set (masterImports_mempool @ concat (map error_placeholder filesToBundle_mempool))"
    using no_dollar_masterImports_mempool no_dollar_placeholders_mempool by simp
  have a: "fst (try_block_pybind net (p\<lparr>isDownloading := True\<rparr>)) = None"
    by (simp add: try_block_pybind_ok [OF assms(1)])
  have b: "fst (try_block_mempool net (p\<lparr>isDownloading := True\<rparr>)) = None"
    by (simp add: try_block_mempool_ok [OF assms(1)])
  have c: "length (saved (handleDownload_pybind net p)) = length (saved p) + 1"
    "alerts (handleDownload_pybind net p) = alerts p"
    by (simp_all add: handleDownload_pybind_ok [OF assms])
  have d: "length (saved (handleDownload_mempool net p)) = length (saved p) + 1"
    "alerts (handleDownload_mempool net p) = alerts p"
    by (simp_all add: handleDownload_mempool_ok [OF assms])
  have e: "((\<forall>file \<in> set filesToBundle_pybind. isl (fetch_text net file)) \<longrightarrow>
            (\<exists>b a.
               saved (handleDownload_pybind net p) =
                 saved p @
                 [([(str ''index.html'',
                     b @
                     (str ''<script src='' @ [34] @ str ''https://unpkg.com/@babel/standalone/babel.min.js'' @ [34] @ str ''></script>'' @ [10] @
                      [10] @ str ''    <script type='' @ [34] @ str ''text/babel'' @ [34] @ str '' data-type='' @ [34] @ str ''module'' @ [34] @ str '' data-presets='' @ [34] @ str ''typescript,react'' @ [34] @ str ''>'' @ [10] @
                      masterImports_pybind @
                      [10] @ str ''/* Error loading types.ts */'' @ [10] @
                      [10] @ str ''/* Error loading components/QuantumScene.tsx */'' @ [10] @
                      [10] @ str ''/* Error loading components/Diagrams.tsx */'' @ [10] @
                      [10] @ str ''/* Error loading App.tsx */'' @ [10] @
                      [10] @ str ''/* Error loading index.tsx */'' @ [10] @
                      [10] @ str ''    </script>'') @
                     a),
                    (str ''README.md'', readme_pybind)],
                   str ''pybind11-website-bundled.zip'')]
               \<and> ((\<not> sublist (str ''</body>'') html \<and> b = html \<and> a = [])
                  \<or> (\<exists>rest. html = b @ str ''</body>'' @ rest
                        \<and> (\<forall>j<length b. \<not> prefix (str ''</body>'') (drop j html))
                        \<and> a = [10] @ str ''</body>'' @ rest))))"
  proof
    assume all: "\<forall>file \<in> set filesToBundle_pybind. isl (fetch_text net file)"
    from injected_where [OF py, of html] obtain b a where
      inj: "inject_script html
              (masterImports_pybind @ concat (map error_placeholder filesToBundle_pybind))
            = b @ script_block
                (masterImports_pybind @ concat (map error_placeholder filesToBundle_pybind)) @ a"
      and wh: "(\<not> sublist (str ''</body>'') html \<and> b = html \<and> a = [])
              \<or> (\<exists>rest. html = b @ str ''</body>'' @ rest
                    \<and> (\<forall>j<length b. \<not> prefix (str ''</body>'') (drop j html))
                    \<and> a = [10] @ str ''</body>'' @ rest)"
      by blast
    have "saved (handleDownload_pybind net p) =
                 saved p @
                 [([(str ''index.html'',
                     b @
                     (str ''<script src='' @ [34] @ str ''https://unpkg.com/@babel/standalone/babel.min.js'' @ [34] @ str ''></script>'' @ [10] @
                      [10] @ str ''    <script type='' @ [34] @ str ''text/babel'' @ [34] @ str '' data-type='' @ [34] @ str ''module'' @ [34] @ str '' data-presets='' @ [34] @ str ''typescript,react'' @ [34] @ str ''>'' @ [10] @
                      masterImports_pybind @
                      [10] @ str ''/* Error loading types.ts */'' @ [10] @
                      [10] @ str ''/* Error loading components/QuantumScene.tsx */'' @ [10] @
                      [10] @ str ''/* Error loading components/Diagrams.tsx */'' @ [10] @
                      [10] @ str ''/* Error loading App.tsx */'' @ [10] @
                      [10] @ str ''/* Error loading index.tsx */'' @ [10] @
                      [10] @ str ''    </script>'') @
                     a),
                    (str ''README.md'', readme_pybind)],
                   str ''pybind11-website-bundled.zip'')]"
      by (simp add: handleDownload_pybind_ok [OF assms] all_failed_pybind [OF all] inj
          all_failed_block_pybind)
    with wh show "\<exists>b a.
               saved (handleDownload_pybind net p) =
                 saved p @
                 [([(str ''index.html'',
                     b @
                     (str ''<script src='' @ [34] @ str ''https://unpkg.com/@babel/standalone/babel.min.js'' @ [34] @ str ''></script>'' @ [10] @
                      [10] @ str ''    <script type='' @ [34] @ str ''text/babel'' @ [34] @ str '' data-type='' @ [34] @ str ''module'' @ [34] @ str '' data-presets='' @ [34] @ str ''typescript,react'' @ [34] @ str ''>'' @ [10] @
                      masterImports_pybind @
                      [10] @ str ''/* Error loading types.ts */'' @ [10] @
                      [10] @ str ''/* Error loading components/QuantumScene.tsx */'' @ [10] @
                      [10] @ str ''/* Error loading components/Diagrams.tsx */'' @ [10] @
                      [10] @ str ''/* Error loading App.tsx */'' @ [10] @
                      [10] @ str ''/* Error loading index.tsx */'' @ [10] @
                      [10] @ str ''    </script>'') @
                     a),
                    (str ''README.md'', readme_pybind)],
                   str ''pybind11-website-bundled.zip'')]
               \<and> ((\<not> sublist (str ''</body>'') html \<and> b = html \<and> a = [])
                  \<or> (\<exists>rest. html = b @ str ''</body>'' @ rest
                        \<and> (\<forall>j<length b. \<not> prefix (str ''</body>'') (drop j html))
                        \<and> a = [10] @ str ''</body>'' @ rest))"
      by blast
  qed
  have f: "((\<forall>file \<in> set filesToBundle_mempool. isl (fetch_text net file)) \<longrightarrow>
            (\<exists>b a.
               saved (handleDownload_mempool net p) =
                 saved p @
                 [([(str ''index.html'',
                     b @
                     (str ''<script src='' @ [34] @ str ''https://unpkg.com/@babel/standalone/babel.min.js'' @ [34] @ str ''></script>'' @ [10] @
                      [10] @ str ''    <script type='' @ [34] @ str ''text/babel'' @ [34] @ str '' data-type='' @ [34] @ str ''module'' @ [34] @ str '' data-presets='' @ [34] @ str ''typescript,react'' @ [34] @ str ''>'' @ [10] @
                      masterImports_mempool @
                      [10] @ str ''/* Error loading types.ts */'' @ [10] @
                      [10] @ str ''/* Error loading components/QuantumScene.tsx */'' @ [10] @
                      [10] @ str ''/* Error loading components/Diagrams.tsx */'' @ [10] @
                      [10] @ str ''/* Error loading App.tsx */'' @ [10] @
                      [10] @ str ''/* Error loading index.tsx */'' @ [10] @
                      [10] @ str ''    </script>'') @
                     a),
                    (str ''README.md'', readme_mempool)],
                   str ''memory-pool-site.zip'')]
               \<and> ((\<not> sublist (str ''</body>'') html \<and> b = html \<and> a = [])
                  \<or> (\<exists>rest. html = b @ str ''</body>'' @ rest
                        \<and> (\<forall>j<length b. \<not> prefix (str ''</body>'') (drop j html))
                        \<and> a = [10] @ str ''</body>'' @ rest))))"
  proof
    assume all: "\<forall>file \<in> set filesToBundle_mempool. isl (fetch_text net file)"
    from injected_where [OF mp, of html] obtain b a where
      inj: "inject_script html
              (masterImports_mempool @ concat (map error_placeholder filesToBundle_mempool))
            = b @ script_block
                (masterImports_mempool @ concat (map error_placeholder filesToBundle_mempool)) @ a"
      and wh: "(\<not> sublist (str ''</body>'') html \<and> b = html \<and> a = [])
              \<or> (\<exists>rest. html = b @ str ''</body>'' @ rest
                    \<and> (\<forall>j<length b. \<not> prefix (str ''</body>'') (drop j html))
                    \<and> a = [10] @ str ''</body>'' @ rest)"
      by blast
    have "saved (handleDownload_mempool net p) =
                 saved p @
                 [([(str ''index.html'',
                     b @
                     (str ''<script src='' @ [34] @ str ''https://unpkg.com/@babel/standalone/babel.min.js'' @ [34] @ str ''></script>'' @ [10] @
                      [10] @ str ''    <script type='' @ [34] @ str ''text/babel'' @ [34] @ str '' data-type='' @ [34] @ str ''module'' @ [34] @ str '' data-presets='' @ [34] @ str ''typescript,react'' @ [34] @ str ''>'' @ [10] @
                      masterImports_mempool @
                      [10] @ str ''/* Error loading types.ts */'' @ [10] @
                      [10] @ str ''/* Error loading components/QuantumScene.tsx */'' @ [10] @
                      [10] @ str ''/* Error loading components/Diagrams.tsx */'' @ [10] @
                      [10] @ str ''/* Error loading App.tsx */'' @ [10] @
                      [10] @ str ''/* Error loading index.tsx */'' @ [10] @
                      [10] @ str ''    </script>'') @
                     a),
                    (str ''README.md'', readme_mempool)],
                   str ''memory-pool-site.zip'')]"
      by (simp add: handleDownload_mempool_ok [OF assms] all_failed_mempool [OF all] inj
          all_failed_block_mempool)
    with wh show "\<exists>b a.
               saved (handleDownload_mempool net p) =
                 saved p @
                 [([(str ''index.html'',
                     b @
                     (str ''<script src='' @ [34] @ str ''https://unpkg.com/@babel/standalone/babel.min.js'' @ [34] @ str ''></script>'' @ [10] @
                      [10] @ str ''    <script type='' @ [34] @ str ''text/babel'' @ [34] @ str '' data-type='' @ [34] @ str ''module'' @ [34] @ str '' data-presets='' @ [34] @ str ''typescript,react'' @ [34] @ str ''>'' @ [10] @
                      masterImports_mempool @
                      [10] @ str ''/* Error loading types.ts */'' @ [10] @
                      [10] @ str ''/* Error loading components/QuantumScene.tsx */'' @ [10] @
                      [10] @ str ''/* Error loading components/Diagrams.tsx */'' @ [10] @
                      [10] @ str ''/* Error loading App.tsx */'' @ [10] @
                      [10] @ str ''/* Error loading index.tsx */'' @ [10] @
                      [10] @ str ''    </script>'') @
                     a),
                    (str ''README.md'', readme_mempool)],
                   str ''memory-pool-site.zip'')]
               \<and> ((\<not> sublist (str ''</body>'') html \<and> b = html \<and> a = [])
                  \<or> (\<exists>rest. html = b @ str ''</body>'' @ rest
                        \<and> (\<forall>j<length b. \<not> prefix (str ''</body>'') (drop j html))
                        \<and> a = [10] @ str ''</body>'' @ rest))"
      by blast
  qed
  from a b c d e f show ?thesis by blast
qed

theorem only_base_failure_aborts_witness:
  "fetch_text (example_net filesToBundle_pybind) (str ''index.html'')
     = Inr (str ''<body><p>page</p></body>'')
   \<and> \<not> isDownloading idle_page
   \<and> isl (fetch_text (example_net filesToBundle_pybind) (str ''types.ts''))
   \<and> isl (fetch_text (example_net filesToBundle_pybind) (str ''components/QuantumScene.tsx''))
   \<and> isl (fetch_text (example_net filesToBundle_pybind) (str ''components/Diagrams.tsx''))
   \<and> isl (fetch_text (example_net filesToBundle_pybind) (str ''App.tsx''))
   \<and> isl (fetch_text (example_net filesToBundle_pybind) (str ''index.tsx''))
   \<and> alerts (handleDownload_pybind (example_net filesToBundle_pybind) idle_page) = []
   \<and> saved (handleDownload_pybind (example_net filesToBundle_pybind) idle_page) =
       [([(str ''index.html'',
           str ''<body><p>page</p>'' @
           str ''<script src='' @ [34] @ str ''https://unpkg.com/@babel/standalone/babel.min.js'' @ [34] @ str ''></script>'' @ [10] @
           [10] @ str ''    <script type='' @ [34] @ str ''text/babel'' @ [34] @ str '' data-type='' @ [34] @ str ''module'' @ [34] @ str '' data-presets='' @ [34] @ str ''typescript,react'' @ [34] @ str ''>'' @ [10] @
           masterImports_pybind @
           [10] @ str ''/* Error loading types.ts */'' @ [10] @
           [10] @ str ''/* Error loading components/QuantumScene.tsx */'' @ [10] @
           [10] @ str ''/* Error loading components/Diagrams.tsx */'' @ [10] @
           [10] @ str ''/* Error loading App.tsx */'' @ [10] @
           [10] @ str ''/* Error loading index.tsx */'' @ [10] @
           [10] @ str ''    </script>'' @
           [10] @ str ''</body>''),
          (str ''README.md'', readme_pybind)],
         str ''pybind11-website-bundled.zip'')]"
proof -
  have h1: "fetch_text (example_net filesToBundle_pybind) (str ''index.html'')
     = Inr (str ''<body><p>page</p></body>'')"
    by (simp add: example_net_base filesToBundle_pybind_def) (simp add: str_def)
  have h3: "\<forall>file \<in> set filesToBundle_pybind. isl (fetch_text (example_net filesToBundle_pybind) file)"
    by (simp add: fetch_text_def example_net_def)
  have h5: "isl (fetch_text (example_net filesToBundle_pybind) (str ''types.ts''))
      \<and> isl (fetch_text (example_net filesToBundle_pybind) (str ''components/QuantumScene.tsx''))
      \<and> isl (fetch_text (example_net filesToBundle_pybind) (str ''components/Diagrams.tsx''))
      \<and> isl (fetch_text (example_net filesToBundle_pybind) (str ''App.tsx''))
      \<and> isl (fetch_text (example_net filesToBundle_pybind) (str ''index.tsx''))"
    using h3 by (simp add: filesToBundle_pybind_def)
  have py: "36 \<notin> set (masterImports_pybind @ concat (map error_placeholder filesToBundle_pybind))"
    using no_dollar_masterImports_pybind no_dollar_placeholders_pybind by simp
  have sp: "split_first (str ''</body>'') (str ''<body><p>page</p></body>'')
     = Some (str ''<body><p>page</p>'', [])"
    by (simp add: str_def)
  have sv: "saved (handleDownload_pybind (example_net filesToBundle_pybind) idle_page) =
       [([(str ''index.html'',
           str ''<body><p>page</p>'' @
           str ''<script src='' @ [34] @ str ''https://unpkg.com/@babel/standalone/babel.min.js'' @ [34] @ str ''></script>'' @ [10] @
           [10] @ str ''    <script type='' @ [34] @ str ''text/babel'' @ [34] @ str '' data-type='' @ [34] @ str ''module'' @ [34] @ str '' data-presets='' @ [34] @ str ''typescript,react'' @ [34] @ str ''>'' @ [10] @
           masterImports_pybind @
           [10] @ str ''/* Error loading types.ts */'' @ [10] @
           [10] @ str ''/* Error loading components/QuantumScene.tsx */'' @ [10] @
           [10] @ str ''/* Error loading components/Diagrams.tsx */'' @ [10] @
           [10] @ str ''/* Error loading App.tsx */'' @ [10] @
           [10] @ str ''/* Error loading index.tsx */'' @ [10] @
           [10] @ str ''    </script>'' @
           [10] @ str ''</body>''),
          (str ''README.md'', readme_pybind)],
         str ''pybind11-website-bundled.zip'')]"
    by (simp add: handleDownload_pybind_ok [OF h1 idle_page_idle] all_failed_pybind [OF h3]
        inject_script_plain [OF py] sp all_failed_block_pybind)
       (simp add: idle_page_def)
  show ?thesis
    using h1 idle_page_idle h5 sv only_base_failure_aborts [OF h1 idle_page_idle]
    by (simp add: idle_page_def)
qed

section \<open>The guard against a second invocation\<close>

lemma handleDownload_pybind_of_render:
  "handleDownload_pybind net p = handleDownload_of_render_pybind (isDownloading p) net p"
  by (simp add: handleDownload_pybind_def handleDownload_of_render_pybind_def)

lemma handleDownload_mempool_of_render:
  "handleDownload_mempool net p = handleDownload_of_render_mempool (isDownloading p) net p"
  by (simp add: handleDownload_mempool_def handleDownload_of_render_mempool_def)

text \<open>
  Claim C6 at a failing input: the handler of one render, which saw the flag clear, is
  called twice, the second time while the first call is in flight. After the guard and
  \<^verbatim>\<open>setIsDownloading(true)\<close> of the first call the flag of the page is set. The guard
  of the second call tests the constant of the render, which is still false: the call
  requests the base document and the five files and saves an archive. When the first
  call has run its \<^verbatim>\<open>try\<close>, \<^verbatim>\<open>catch\<close> and \<^verbatim>\<open>finally\<close> blocks as well, twelve
  requests have been sent and two archives saved. The claim asks for the second call to
  be a no-op. This holds on both pages.
\<close>

theorem second_call_of_one_render_runs:
  "isDownloading (idle_page\<lparr>isDownloading := True\<rparr>)
   \<and> requests (handleDownload_of_render_pybind False (example_net [])
                 (idle_page\<lparr>isDownloading := True\<rparr>)) =
       [str ''index.html'',
        str ''types.ts'',
        str ''components/QuantumScene.tsx'',
        str ''components/Diagrams.tsx'',
        str ''App.tsx'',
        str ''index.tsx'']
   \<and> length (saved (handleDownload_of_render_pybind False (example_net [])
                       (idle_page\<lparr>isDownloading := True\<rparr>))) = 1
   \<and> length (requests (settle_pybind (try_block_pybind (example_net [])
                (handleDownload_of_render_pybind False (example_net [])
                   (idle_page\<lparr>isDownloading := True\<rparr>))))) = 12
   \<and> length (saved (settle_pybind (try_block_pybind (example_net [])
                (handleDownload_of_render_pybind False (example_net [])
                   (idle_page\<lparr>isDownloading := True\<rparr>))))) = 2
   \<and> requests (handleDownload_of_render_mempool False (example_net [])
                 (idle_page\<lparr>isDownloading := True\<rparr>)) =
       [str ''index.html'',
        str ''types.ts'',
        str ''components/QuantumScene.tsx'',
        str ''components/Diagrams.tsx'',
        str ''App.tsx'',
        str ''index.tsx'']
   \<and> length (saved (handleDownload_of_render_mempool False (example_net [])
                       (idle_page\<lparr>isDownloading := True\<rparr>))) = 1
   \<and> length (requests (settle_mempool (try_block_mempool (example_net [])
                (handleDownload_of_render_mempool False (example_net [])
                   (idle_page\<lparr>isDownloading := True\<rparr>))))) = 12
   \<and> length (saved (settle_mempool (try_block_mempool (example_net [])
                (handleDownload_of_render_mempool False (example_net [])
                   (idle_page\<lparr>isDownloading := True\<rparr>))))) = 2"
proof -
  have h1: "fetch_text (example_net []) (str ''index.html'') = Inr (str ''<body><p>page</p></body>'')"
    by (simp add: example_net_base)
  show ?thesis
    by (simp add: handleDownload_of_render_pybind_def handleDownload_of_render_mempool_def
        try_block_pybind_ok [OF h1] try_block_mempool_ok [OF h1] settle_pybind_def
        settle_mempool_def idle_page_def filesToBundle_pybind_def filesToBundle_mempool_def)
qed

section \<open>Dollar signs in the injected script\<close>

lemmas eval_all = transform_pybind_def regex_defs eval_defs

lemma dollar_contribution:
  "contribution_pybind dollar_net file =
     (if file = str ''index.html''
      then source_section file (transform_pybind (str ''<body><p>page</p></body></html>''))
      else source_section file (str ''const unit = '' @ [39, 36, 39] @ str '';''))"
proof -
  have "transform_pybind (str ''const unit = '' @ [39, 36, 39] @ str '';'')
      = str ''const unit = '' @ [39, 36, 39] @ str '';''"
    by (simp add: eval_all)
  then show ?thesis
    by (simp add: contribution_pybind_def fetch_text_def dollar_net_def)
qed

text \<open>
  Claim C5 at a failing input: the page ends with \<^verbatim>\<open></body></html>\<close> and every module
  is the line \<^verbatim>\<open>const unit = '$';\<close>. The handler passes the script block as the
  replacement template of \<^verbatim>\<open>html.replace\<close>, where \<^verbatim>\<open>$'\<close> stands for the text after
  the match: each module arrives in the archive with \<^verbatim>\<open></html>\<close> in the place of
  \<^verbatim>\<open>$'\<close>, so what stands before the marker is not the script block of the combined
  code.
\<close>

theorem dollar_patterns_expanded_in_injected_script:
  "saved (handleDownload_pybind dollar_net idle_page) =
     [([(str ''index.html'',
         str ''<body><p>page</p>'' @
         script_block
           (masterImports_pybind @
            source_section (str ''types.ts'')
              (str ''const unit = '' @ [39] @ str ''</html>;'') @
            source_section (str ''components/QuantumScene.tsx'')
              (str ''const unit = '' @ [39] @ str ''</html>;'') @
            source_section (str ''components/Diagrams.tsx'')
              (str ''const unit = '' @ [39] @ str ''</html>;'') @
            source_section (str ''App.tsx'')
              (str ''const unit = '' @ [39] @ str ''</html>;'') @
            source_section (str ''index.tsx'')
              (str ''const unit = '' @ [39] @ str ''</html>;''))
         @ [10] @ str ''</body></html>''),
        (str ''README.md'', readme_pybind)],
       str ''pybind11-website-bundled.zip'')]"
proof -
  have h1: "fetch_text dollar_net (str ''index.html'') = Inr (str ''<body><p>page</p></body></html>'')"
    by (simp add: fetch_text_def dollar_net_def)
  have ne: "str ''types.ts'' \<noteq> str ''index.html''"
    "str ''components/QuantumScene.tsx'' \<noteq> str ''index.html''"
    "str ''components/Diagrams.tsx'' \<noteq> str ''index.html''"
    "str ''App.tsx'' \<noteq> str ''index.html''"
    "str ''index.tsx'' \<noteq> str ''index.html''"
    by (simp_all add: str_def)
  have inj: "inject_script (str ''<body><p>page</p></body></html>'')
      (masterImports_pybind @ concat (map (contribution_pybind dollar_net) filesToBundle_pybind))
    = str ''<body><p>page</p>'' @
         script_block
           (masterImports_pybind @
            source_section (str ''types.ts'')
              (str ''const unit = '' @ [39] @ str ''</html>;'') @
            source_section (str ''components/QuantumScene.tsx'')
              (str ''const unit = '' @ [39] @ str ''</html>;'') @
            source_section (str ''components/Diagrams.tsx'')
              (str ''const unit = '' @ [39] @ str ''</html>;'') @
            source_section (str ''App.tsx'')
              (str ''const unit = '' @ [39] @ str ''</html>;'') @
            source_section (str ''index.tsx'')
              (str ''const unit = '' @ [39] @ str ''</html>;''))
         @ [10] @ str ''</body></html>''"
    using ne
    by (simp add: filesToBundle_pybind_def dollar_contribution)
       (simp add: inject_script_def js_includes_def string_replace_def script_block_def
          babelScript_def mainScript_def masterImports_pybind_def source_section_def
          str_def is_digit_def)
  show ?thesis
    by (simp add: handleDownload_pybind_ok [OF h1 idle_page_idle] inj) (simp add: idle_page_def)
qed

section \<open>The combined code in the output\<close>

text \<open>
  Claim C4 at a failing input, the one of claim C5: the page ends with
  \<^verbatim>\<open></body></html>\<close> and every module is the line \<^verbatim>\<open>const unit = '$';\<close>. The loop
  builds the combined code as the claim says: the master preamble, then for each file
  of the manifest, in order, the marker comment with its path and the rewritten text.
  But the code that stands in the \<^verbatim>\<open>index.html\<close> of the archive is not that text: the
  handler hands it to \<^verbatim>\<open>html.replace\<close> inside the replacement template, and every
  document arrives as \<^verbatim>\<open>const unit = '</html>;\<close>. The rewritten documents do not
  occur in the output.
\<close>

theorem combined_code_altered_in_output:
  "fst (bundle_files_pybind dollar_net filesToBundle_pybind (masterImports_pybind, idle_page)) =
      masterImports_pybind @
      [10, 10] @ str ''/* --- Source: types.ts --- */'' @ [10] @ str ''const unit = '' @ [39, 36, 39] @ str '';'' @ [10] @
      [10, 10] @ str ''/* --- Source: components/QuantumScene.tsx --- */'' @ [10] @ str ''const unit = '' @ [39, 36, 39] @ str '';'' @ [10] @
      [10, 10] @ str ''/* --- Source: components/Diagrams.tsx --- */'' @ [10] @ str ''const unit = '' @ [39, 36, 39] @ str '';'' @ [10] @
      [10, 10] @ str ''/* --- Source: App.tsx --- */'' @ [10] @ str ''const unit = '' @ [39, 36, 39] @ str '';'' @ [10] @
      [10, 10] @ str ''/* --- Source: index.tsx --- */'' @ [10] @ str ''const unit = '' @ [39, 36, 39] @ str '';'' @ [10]
   \<and> map_of (fst (hd (saved (handleDownload_pybind dollar_net idle_page)))) (str ''index.html'') =
       Some
        (str ''<body><p>page</p>'' @
         str ''<script src='' @ [34] @ str ''https://unpkg.com/@babel/standalone/babel.min.js'' @ [34] @ str ''></script>'' @ [10] @
         [10] @ str ''    <script type='' @ [34] @ str ''text/babel'' @ [34] @ str '' data-type='' @ [34] @ str ''module'' @ [34] @ str '' data-presets='' @ [34] @ str ''typescript,react'' @ [34] @ str ''>'' @ [10] @
         masterImports_pybind @
         [10, 10] @ str ''/* --- Source: types.ts --- */'' @ [10] @ str ''const unit = '' @ [39] @ str ''</html>;'' @ [10] @
         [10, 10] @ str ''/* --- Source: components/QuantumScene.tsx --- */'' @ [10] @ str ''const unit = '' @ [39] @ str ''</html>;'' @ [10] @
         [10, 10] @ str ''/* --- Source: components/Diagrams.tsx --- */'' @ [10] @ str ''const unit = '' @ [39] @ str ''</html>;'' @ [10] @
         [10, 10] @ str ''/* --- Source: App.tsx --- */'' @ [10] @ str ''const unit = '' @ [39] @ str ''</html>;'' @ [10] @
         [10, 10] @ str ''/* --- Source: index.tsx --- */'' @ [10] @ str ''const unit = '' @ [39] @ str ''</html>;'' @ [10] @
         [10] @ str ''    </script>'' @
         [10] @ str ''</body></html>'')
   \<and> \<not> js_includes
        (str ''<body><p>page</p>'' @
         str ''<script src='' @ [34] @ str ''https://unpkg.com/@babel/standalone/babel.min.js'' @ [34] @ str ''></script>'' @ [10] @
         [10] @ str ''    <script type='' @ [34] @ str ''text/babel'' @ [34] @ str '' data-type='' @ [34] @ str ''module'' @ [34] @ str '' data-presets='' @ [34] @ str ''typescript,react'' @ [34] @ str ''>'' @ [10] @
         masterImports_pybind @
         [10, 10] @ str ''/* --- Source: types.ts --- */'' @ [10] @ str ''const unit = '' @ [39] @ str ''</html>;'' @ [10] @
         [10, 10] @ str ''/* --- Source: components/QuantumScene.tsx --- */'' @ [10] @ str ''const unit = '' @ [39] @ str ''</html>;'' @ [10] @
         [10, 10] @ str ''/* --- Source: components/Diagrams.tsx --- */'' @ [10] @ str ''const unit = '' @ [39] @ str ''</html>;'' @ [10] @
         [10, 10] @ str ''/* --- Source: App.tsx --- */'' @ [10] @ str ''const unit = '' @ [39] @ str ''</html>;'' @ [10] @
         [10, 10] @ str ''/* --- Source: index.tsx --- */'' @ [10] @ str ''const unit = '' @ [39] @ str ''</html>;'' @ [10] @
         [10] @ str ''    </script>'' @
         [10] @ str ''</body></html>'')
        (str ''const unit = '' @ [39, 36, 39] @ str '';'')"
proof -
  have h1: "fetch_text dollar_net (str ''index.html'') = Inr (str ''<body><p>page</p></body></html>'')"
    by (simp add: fetch_text_def dollar_net_def)
  have ne: "str ''types.ts'' \<noteq> str ''index.html''"
    "str ''components/QuantumScene.tsx'' \<noteq> str ''index.html''"
    "str ''components/Diagrams.tsx'' \<noteq> str ''index.html''"
    "str ''App.tsx'' \<noteq> str ''index.html''"
    "str ''index.tsx'' \<noteq> str ''index.html''"
    by (simp_all add: str_def)
  have built: "masterImports_pybind @ concat (map (contribution_pybind dollar_net) filesToBundle_pybind) =
      masterImports_pybind @
      [10, 10] @ str ''/* --- Source: types.ts --- */'' @ [10] @ str ''const unit = '' @ [39, 36, 39] @ str '';'' @ [10] @
      [10, 10] @ str ''/* --- Source: components/QuantumScene.tsx --- */'' @ [10] @ str ''const unit = '' @ [39, 36, 39] @ str '';'' @ [10] @
      [10, 10] @ str ''/* --- Source: components/Diagrams.tsx --- */'' @ [10] @ str ''const unit = '' @ [39, 36, 39] @ str '';'' @ [10] @
      [10, 10] @ str ''/* --- Source: App.tsx --- */'' @ [10] @ str ''const unit = '' @ [39, 36, 39] @ str '';'' @ [10] @
      [10, 10] @ str ''/* --- Source: index.tsx --- */'' @ [10] @ str ''const unit = '' @ [39, 36, 39] @ str '';'' @ [10]"
    using ne
    by (simp add: filesToBundle_pybind_def dollar_contribution source_section_def)
       (simp add: str_def)
  have a: "fst (bundle_files_pybind dollar_net filesToBundle_pybind (masterImports_pybind, idle_page)) =
      masterImports_pybind @
      [10, 10] @ str ''/* --- Source: types.ts --- */'' @ [10] @ str ''const unit = '' @ [39, 36, 39] @ str '';'' @ [10] @
      [10, 10] @ str ''/* --- Source: components/QuantumScene.tsx --- */'' @ [10] @ str ''const unit = '' @ [39, 36, 39] @ str '';'' @ [10] @
      [10, 10] @ str ''/* --- Source: components/Diagrams.tsx --- */'' @ [10] @ str ''const unit = '' @ [39, 36, 39] @ str '';'' @ [10] @
      [10, 10] @ str ''/* --- Source: App.tsx --- */'' @ [10] @ str ''const unit = '' @ [39, 36, 39] @ str '';'' @ [10] @
      [10, 10] @ str ''/* --- Source: index.tsx --- */'' @ [10] @ str ''const unit = '' @ [39, 36, 39] @ str '';'' @ [10]"
    by (simp add: bundle_files_pybind_eq built)
  have landed: "inject_script (str ''<body><p>page</p></body></html>'')
      (masterImports_pybind @
      [10, 10] @ str ''/* --- Source: types.ts --- */'' @ [10] @ str ''const unit = '' @ [39, 36, 39] @ str '';'' @ [10] @
      [10, 10] @ str ''/* --- Source: components/QuantumScene.tsx --- */'' @ [10] @ str ''const unit = '' @ [39, 36, 39] @ str '';'' @ [10] @
      [10, 10] @ str ''/* --- Source: components/Diagrams.tsx --- */'' @ [10] @ str ''const unit = '' @ [39, 36, 39] @ str '';'' @ [10] @
      [10, 10] @ str ''/* --- Source: App.tsx --- */'' @ [10] @ str ''const unit = '' @ [39, 36, 39] @ str '';'' @ [10] @
      [10, 10] @ str ''/* --- Source: index.tsx --- */'' @ [10] @ str ''const unit = '' @ [39, 36, 39] @ str '';'' @ [10])
    = str ''<body><p>page</p>'' @
         str ''<script src='' @ [34] @ str ''https://unpkg.com/@babel/standalone/babel.min.js'' @ [34] @ str ''></script>'' @ [10] @
         [10] @ str ''    <script type='' @ [34] @ str ''text/babel'' @ [34] @ str '' data-type='' @ [34] @ str ''module'' @ [34] @ str '' data-presets='' @ [34] @ str ''typescript,react'' @ [34] @ str ''>'' @ [10] @
         masterImports_pybind @
         [10, 10] @ str ''/* --- Source: types.ts --- */'' @ [10] @ str ''const unit = '' @ [39] @ str ''</html>;'' @ [10] @
         [10, 10] @ str ''/* --- Source: components/QuantumScene.tsx --- */'' @ [10] @ str ''const unit = '' @ [39] @ str ''</html>;'' @ [10] @
         [10, 10] @ str ''/* --- Source: components/Diagrams.tsx --- */'' @ [10] @ str ''const unit = '' @ [39] @ str ''</html>;'' @ [10] @
         [10, 10] @ str ''/* --- Source: App.tsx --- */'' @ [10] @ str ''const unit = '' @ [39] @ str ''</html>;'' @ [10] @
         [10, 10] @ str ''/* --- Source: index.tsx --- */'' @ [10] @ str ''const unit = '' @ [39] @ str ''</html>;'' @ [10] @
         [10] @ str ''    </script>'' @
         [10] @ str ''</body></html>''"
    by (simp add: inject_script_def js_includes_def string_replace_def babelScript_def
        mainScript_def masterImports_pybind_def str_def is_digit_def)
  have b: "map_of (fst (hd (saved (handleDownload_pybind dollar_net idle_page)))) (str ''index.html'') =
       Some
        (str ''<body><p>page</p>'' @
         str ''<script src='' @ [34] @ str ''https://unpkg.com/@babel/standalone/babel.min.js'' @ [34] @ str ''></script>'' @ [10] @
         [10] @ str ''    <script type='' @ [34] @ str ''text/babel'' @ [34] @ str '' data-type='' @ [34] @ str ''module'' @ [34] @ str '' data-presets='' @ [34] @ str ''typescript,react'' @ [34] @ str ''>'' @ [10] @
         masterImports_pybind @
         [10, 10] @ str ''/* --- Source: types.ts --- */'' @ [10] @ str ''const unit = '' @ [39] @ str ''</html>;'' @ [10] @
         [10, 10] @ str ''/* --- Source: components/QuantumScene.tsx --- */'' @ [10] @ str ''const unit = '' @ [39] @ str ''</html>;'' @ [10] @
         [10, 10] @ str ''/* --- Source: components/Diagrams.tsx --- */'' @ [10] @ str ''const unit = '' @ [39] @ str ''</html>;'' @ [10] @
         [10, 10] @ str ''/* --- Source: App.tsx --- */'' @ [10] @ str ''const unit = '' @ [39] @ str ''</html>;'' @ [10] @
         [10, 10] @ str ''/* --- Source: index.tsx --- */'' @ [10] @ str ''const unit = '' @ [39] @ str ''</html>;'' @ [10] @
         [10] @ str ''    </script>'' @
         [10] @ str ''</body></html>'')"
  proof -
    have "map_of (fst (hd (saved (handleDownload_pybind dollar_net idle_page)))) (str ''index.html'') =
        Some (inject_script (str ''<body><p>page</p></body></html>'')
               (masterImports_pybind
                  @ concat (map (contribution_pybind dollar_net) filesToBundle_pybind)))"
      by (simp add: handleDownload_pybind_ok [OF h1 idle_page_idle]) (simp add: idle_page_def)
    then show ?thesis
      by (simp only: built landed)
  qed
  have c: "\<not> js_includes
        (str ''<body><p>page</p>'' @
         str ''<script src='' @ [34] @ str ''https://unpkg.com/@babel/standalone/babel.min.js'' @ [34] @ str ''></script>'' @ [10] @
         [10] @ str ''    <script type='' @ [34] @ str ''text/babel'' @ [34] @ str '' data-type='' @ [34] @ str ''module'' @ [34] @ str '' data-presets='' @ [34] @ str ''typescript,react'' @ [34] @ str ''>'' @ [10] @
         masterImports_pybind @
         [10, 10] @ str ''/* --- Source: types.ts --- */'' @ [10] @ str ''const unit = '' @ [39] @ str ''</html>;'' @ [10] @
         [10, 10] @ str ''/* --- Source: components/QuantumScene.tsx --- */'' @ [10] @ str ''const unit = '' @ [39] @ str ''</html>;'' @ [10] @
         [10, 10] @ str ''/* --- Source: components/Diagrams.tsx --- */'' @ [10] @ str ''const unit = '' @ [39] @ str ''</html>;'' @ [10] @
         [10, 10] @ str ''/* --- Source: App.tsx --- */'' @ [10] @ str ''const unit = '' @ [39] @ str ''</html>;'' @ [10] @
         [10, 10] @ str ''/* --- Source: index.tsx --- */'' @ [10] @ str ''const unit = '' @ [39] @ str ''</html>;'' @ [10] @
         [10] @ str ''    </script>'' @
         [10] @ str ''</body></html>'')
        (str ''const unit = '' @ [39, 36, 39] @ str '';'')"
  proof
    assume "js_includes
        (str ''<body><p>page</p>'' @
         str ''<script src='' @ [34] @ str ''https://unpkg.com/@babel/standalone/babel.min.js'' @ [34] @ str ''></script>'' @ [10] @
         [10] @ str ''    <script type='' @ [34] @ str ''text/babel'' @ [34] @ str '' data-type='' @ [34] @ str ''module'' @ [34] @ str '' data-presets='' @ [34] @ str ''typescript,react'' @ [34] @ str ''>'' @ [10] @
         masterImports_pybind @
         [10, 10] @ str ''/* --- Source: types.ts --- */'' @ [10] @ str ''const unit = '' @ [39] @ str ''</html>;'' @ [10] @
         [10, 10] @ str ''/* --- Source: components/QuantumScene.tsx --- */'' @ [10] @ str ''const unit = '' @ [39] @ str ''</html>;'' @ [10] @
         [10, 10] @ str ''/* --- Source: components/Diagrams.tsx --- */'' @ [10] @ str ''const unit = '' @ [39] @ str ''</html>;'' @ [10] @
         [10, 10] @ str ''/* --- Source: App.tsx --- */'' @ [10] @ str ''const unit = '' @ [39] @ str ''</html>;'' @ [10] @
         [10, 10] @ str ''/* --- Source: index.tsx --- */'' @ [10] @ str ''const unit = '' @ [39] @ str ''</html>;'' @ [10] @
         [10] @ str ''    </script>'' @
         [10] @ str ''</body></html>'')
        (str ''const unit = '' @ [39, 36, 39] @ str '';'')"
    then have "set (str ''const unit = '' @ [39, 36, 39] @ str '';'') \<subseteq> set
        (str ''<body><p>page</p>'' @
         str ''<script src='' @ [34] @ str ''https://unpkg.com/@babel/standalone/babel.min.js'' @ [34] @ str ''></script>'' @ [10] @
         [10] @ str ''    <script type='' @ [34] @ str ''text/babel'' @ [34] @ str '' data-type='' @ [34] @ str ''module'' @ [34] @ str '' data-presets='' @ [34] @ str ''typescript,react'' @ [34] @ str ''>'' @ [10] @
         masterImports_pybind @
         [10, 10] @ str ''/* --- Source: types.ts --- */'' @ [10] @ str ''const unit = '' @ [39] @ str ''</html>;'' @ [10] @
         [10, 10] @ str ''/* --- Source: components/QuantumScene.tsx --- */'' @ [10] @ str ''const unit = '' @ [39] @ str ''</html>;'' @ [10] @
         [10, 10] @ str ''/* --- Source: components/Diagrams.tsx --- */'' @ [10] @ str ''const unit = '' @ [39] @ str ''</html>;'' @ [10] @
         [10, 10] @ str ''/* --- Source: App.tsx --- */'' @ [10] @ str ''const unit = '' @ [39] @ str ''</html>;'' @ [10] @
         [10, 10] @ str ''/* --- Source: index.tsx --- */'' @ [10] @ str ''const unit = '' @ [39] @ str ''</html>;'' @ [10] @
         [10] @ str ''    </script>'' @
         [10] @ str ''</body></html>'')"
      by (simp only: js_includes_sublist set_mono_sublist)
    moreover have "36 \<notin> set
        (str ''<body><p>page</p>'' @
         str ''<script src='' @ [34] @ str ''https://unpkg.com/@babel/standalone/babel.min.js'' @ [34] @ str ''></script>'' @ [10] @
         [10] @ str ''    <script type='' @ [34] @ str ''text/babel'' @ [34] @ str '' data-type='' @ [34] @ str ''module'' @ [34] @ str '' data-presets='' @ [34] @ str ''typescript,react'' @ [34] @ str ''>'' @ [10] @
         masterImports_pybind @
         [10, 10] @ str ''/* --- Source: types.ts --- */'' @ [10] @ str ''const unit = '' @ [39] @ str ''</html>;'' @ [10] @
         [10, 10] @ str ''/* --- Source: components/QuantumScene.tsx --- */'' @ [10] @ str ''const unit = '' @ [39] @ str ''</html>;'' @ [10] @
         [10, 10] @ str ''/* --- Source: components/Diagrams.tsx --- */'' @ [10] @ str ''const unit = '' @ [39] @ str ''</html>;'' @ [10] @
         [10, 10] @ str ''/* --- Source: App.tsx --- */'' @ [10] @ str ''const unit = '' @ [39] @ str ''</html>;'' @ [10] @
         [10, 10] @ str ''/* --- Source: index.tsx --- */'' @ [10] @ str ''const unit = '' @ [39] @ str ''</html>;'' @ [10] @
         [10] @ str ''    </script>'' @
         [10] @ str ''</body></html>'')"
      by (simp add: masterImports_pybind_def str_def)
    ultimately show False
      by auto
  qed
  from a b c show ?thesis
    by (intro conjI)
qed

end
